theory Spec2Isabelle
  imports Complex_Main
begin

section \<open>Unrestricted AGF2 (pyscf/agf2/uagf2.py): data model\<close>

text \<open>
  The module is a thin layer of control flow over numerical collaborators that live in
  other modules (\<open>aux\<close>, \<open>ragf2\<close>, \<open>chempot\<close>, \<open>lib.diis\<close>, \<open>ao2mo\<close>, numpy). The
  collaborators are parameters of the model, collected in the record \<open>collaborators\<close>;
  arrays whose contents the module never inspects are values of a type variable
  (\<open>'m\<close> for matrices, \<open>'v\<close> for vectors, \<open>'t\<close> for stored integral tensors), and
  the numpy operations on them are collaborators as well. Floating
  point numbers are modelled as real numbers. Every exception the module itself can raise
  is a value of \<open>error\<close>; the collaborators are taken to return normally. The module
  is read under the interpreter it was written for (\<open>time.clock\<close> exists), and a
  logging call does nothing but evaluate its arguments.
\<close>

datatype error =
    AssertionError
  | TypeError string
  | NameError string
  | UnboundLocalError string

text \<open>The two classes of \<open>aux\<close> that the module tests with \<open>type(x) is ...\<close>.\<close>

datatype kind = GreensFunction | SelfEnergy

record ('v, 'm) auxiliary =
  kind :: kind
  energy :: 'v
  coupling :: 'm
  chempot :: real
  naux :: nat

text \<open>The class \<open>_ChemistsERIs\<close> (the fields the module reads).\<close>

record ('t, 'm) ChemistsERIs =
  h1e :: "'m \<times> 'm"
  fock :: "'m \<times> 'm"
  eri_aa :: 't
  eri_ab :: 't
  eri_ba :: 't
  eri_bb :: 't

text \<open>
  The collaborators the Fock build and the energies call:
  \<^item> \<open>get_jk t rdm1 with_k\<close> is \<open>ragf2.get_jk(agf2, t, rdm1=rdm1, with_k=with_k)\<close>,
    the pair \<open>(vj, vk)\<close>;
  \<^item> \<open>aux_make_rdm1 gf occupancy\<close> is the method \<open>gf.make_rdm1(occupancy=occupancy)\<close>;
  \<^item> \<open>ragf2_energy_2body gf se\<close> is \<open>ragf2.energy_2body(agf2, gf, se)\<close>;
  \<^item> \<open>np_add x y\<close> and \<open>np_sub x y\<close> are numpy's \<open>x + y\<close> and \<open>x - y\<close> on arrays.
\<close>

record ('v, 'm, 't) collaborators =
  np_add :: "'m \<Rightarrow> 'm \<Rightarrow> 'm"
  np_sub :: "'m \<Rightarrow> 'm \<Rightarrow> 'm"
  get_jk :: "'t \<Rightarrow> 'm \<Rightarrow> bool \<Rightarrow> 'm \<times> 'm"
  aux_make_rdm1 :: "('v, 'm) auxiliary \<Rightarrow> nat \<Rightarrow> 'm"
  ragf2_energy_2body :: "('v, 'm) auxiliary \<Rightarrow> ('v, 'm) auxiliary \<Rightarrow> real"

section \<open>Density matrix and Fock matrix\<close>

text \<open>
  \<open>UAGF2.make_rdm1\<close> for a Green's function that is given (the branch \<open>gf is None\<close>
  rebuilds the Hartree-Fock Green's function first and is not taken by any caller in
  this module).
\<close>

definition make_rdm1 ::
  "('v, 'm, 't) collaborators \<Rightarrow> ('v, 'm) auxiliary \<times> ('v, 'm) auxiliary \<Rightarrow> 'm \<times> 'm" where
  "make_rdm1 ops gf =
     (let rdm1_a = aux_make_rdm1 ops (fst gf) 1;
          rdm1_b = aux_make_rdm1 ops (snd gf) 1
      in (rdm1_a, rdm1_b))"

text \<open>
  \<open>get_fock(agf2, eri, gf=None, rdm1=None)\<close>: the keyword arguments are options; the
  \<open>assert rdm1 is not None\<close> is the only way to fail.
\<close>

definition get_fock ::
  "('v, 'm, 't) collaborators \<Rightarrow> ('t, 'm) ChemistsERIs \<Rightarrow>
   (('v, 'm) auxiliary \<times> ('v, 'm) auxiliary) option \<Rightarrow> ('m \<times> 'm) option \<Rightarrow>
   error + ('m \<times> 'm)" where
  "get_fock ops eri gf rdm1 =
     (let rdm1 = (case gf of Some g \<Rightarrow> Some (make_rdm1 ops g) | None \<Rightarrow> rdm1)
      in case rdm1 of
           None \<Rightarrow> Inl AssertionError
         | Some rdm1 \<Rightarrow>
             (let (vj_aa, vk_aa) = get_jk ops (eri_aa eri) (fst rdm1) True;
                  (vj_bb, vk_bb) = get_jk ops (eri_bb eri) (snd rdm1) True;
                  vj_ab = fst (get_jk ops (eri_ab eri) (snd rdm1) False);
                  vj_ba = fst (get_jk ops (eri_ba eri) (fst rdm1) False);
                  fock_a = np_sub ops (np_add ops (np_add ops (fst (h1e eri)) vj_aa) vj_ab) vk_aa;
                  fock_b = np_sub ops (np_add ops (np_add ops (snd (h1e eri)) vj_bb) vj_ba) vk_bb
              in Inr (fock_a, fock_b)))"

section \<open>Two-body energies\<close>

definition energy_2body ::
  "('v, 'm, 't) collaborators \<Rightarrow> ('v, 'm) auxiliary \<times> ('v, 'm) auxiliary \<Rightarrow>
   ('v, 'm) auxiliary \<times> ('v, 'm) auxiliary \<Rightarrow> real" where
  "energy_2body ops g se =
     (let e2b_a = ragf2_energy_2body ops (fst g) (fst se);
          e2b_b = ragf2_energy_2body ops (snd g) (snd se)
      in (e2b_a + e2b_b) * 0.5)"

text \<open>
  Modelled from the spec: \<open>ragf2.energy_mp2\<close>, the restricted seed energy, which lives
  in \<open>pyscf/agf2/ragf2.py\<close>. The spec (and the docstring repeated in this module) says
  it is the same contraction as the general two-body energy and equals half of it.
\<close>

definition ragf2_energy_mp2 ::
  "('v, 'm, 't) collaborators \<Rightarrow> ('v, 'm) auxiliary \<Rightarrow> ('v, 'm) auxiliary \<Rightarrow> real" where
  "ragf2_energy_mp2 ops g se = ragf2_energy_2body ops g se * 0.5"

definition energy_mp2 ::
  "('v, 'm, 't) collaborators \<Rightarrow> ('v, 'm) auxiliary \<times> ('v, 'm) auxiliary \<Rightarrow>
   ('v, 'm) auxiliary \<times> ('v, 'm) auxiliary \<Rightarrow> real" where
  "energy_mp2 ops g se =
     (let emp2_a = ragf2_energy_mp2 ops (fst g) (fst se);
          emp2_b = ragf2_energy_mp2 ops (snd g) (snd se)
      in (emp2_a + emp2_b) * 0.5)"

section \<open>The Dyson/Fock solver: \<open>fock_loop\<close>\<close>

text \<open>The attributes of the \<open>UAGF2\<close> object that the module reads.\<close>

record 'v UAGF2 =
  max_memory :: real
  conv_tol_rdm1 :: real
  conv_tol_nelec :: real
  max_cycle_outer :: int
  max_cycle_inner :: int
  weight_tol :: real
  diis_space :: int
  diis_min_space :: int
  nmo :: "nat \<times> nat"
  nocc :: "nat \<times> nat"
  mo_energy :: "'v \<times> 'v"

text \<open>
  A \<open>lib.diis.DIIS\<close> object: the two attributes \<open>fock_loop\<close> assigns, and the
  accumulated history, which only \<open>diis.update\<close> reads and writes.
\<close>

record 'h DIIS =
  space :: int
  min_space :: int
  history :: 'h

text \<open>
  The collaborators of the solver:
  \<^item> \<open>minimize_chempot se fock nelec x0 tol maxiter\<close> is the first component of
    \<open>minimize_chempot(se, fock, nelec, x0=x0, occupancy=1, tol=tol, maxiter=maxiter)\<close>
    (the second component, \<open>opt\<close>, is never read);
  \<^item> \<open>aux_eig se fock chempot\<close> is \<open>se.eig(fock, chempot=chempot, out=buf)\<close>, with
    \<open>None\<close> for the default; the buffers \<open>bufa\<close>, \<open>bufb\<close> only lend storage;
  \<^item> \<open>binsearch_chempot x nphys nelec occupancy\<close>, whose first argument is a Fock matrix
    (\<open>Inl\<close>) or a pair of eigenvalues and eigenvectors (\<open>Inr\<close>), returns the pair
    (chemical potential, error in the number of electrons);
  \<^item> \<open>DIIS_new\<close> is the object \<open>lib.diis.DIIS(agf2)\<close> returns, \<open>diis_update d x\<close> is
    \<open>d.update(x, xerr=None)\<close> together with the object as the call leaves it;
  \<^item> \<open>rows_upto v n\<close> is \<open>v[:n]\<close> and \<open>np_max_absolute x\<close> is \<open>np.max(np.absolute(x))\<close>.
\<close>

record ('v, 'm, 'h) solver_collaborators =
  minimize_chempot ::
    "('v, 'm) auxiliary \<Rightarrow> 'm \<Rightarrow> nat \<Rightarrow> real \<Rightarrow> real \<Rightarrow> int \<Rightarrow> ('v, 'm) auxiliary"
  aux_eig :: "('v, 'm) auxiliary \<Rightarrow> 'm \<Rightarrow> real option \<Rightarrow> 'v \<times> 'm"
  binsearch_chempot :: "('m + ('v \<times> 'm)) \<Rightarrow> nat \<Rightarrow> nat \<Rightarrow> nat \<Rightarrow> real \<times> real"
  DIIS_new :: "'h DIIS"
  diis_update :: "'h DIIS \<Rightarrow> 'm \<times> 'm \<Rightarrow> ('m \<times> 'm) \<times> 'h DIIS"
  rows_upto :: "'m \<Rightarrow> nat \<Rightarrow> 'm"
  np_max_absolute :: "'m \<Rightarrow> real"

text \<open>
  The local variables of \<open>fock_loop\<close>. A variable that Python binds only inside a loop
  is an option: \<open>None\<close> while it is unbound. Reading it then raises
  \<open>UnboundLocalError\<close>, which is what \<open>load\<close> does.
\<close>

record ('v, 'm) fock_locals =
  focka :: 'm
  fockb :: 'm
  sea :: "('v, 'm) auxiliary"
  seb :: "('v, 'm) auxiliary"
  gf :: "('v, 'm) auxiliary \<times> ('v, 'm) auxiliary"
  converged :: bool
  niter2 :: "int option"
  nerra :: "real option"
  nerrb :: "real option"
  nerr :: "real option"
  derra :: "real option"
  derrb :: "real option"
  derr :: "real option"
  rdm1a_prev :: "'m option"
  rdm1b_prev :: "'m option"

definition load :: "string \<Rightarrow> 'a option \<Rightarrow> error + 'a" where
  "load name v = (case v of None \<Rightarrow> Inl (UnboundLocalError name) | Some x \<Rightarrow> Inr x)"

text \<open>
  The DIIS object is private to one call of \<open>fock_loop\<close>. To make that a statement and
  not a convention, DIIS objects live in a store (a list of objects, an address is an
  index): \<open>lib.diis.DIIS(agf2)\<close> allocates a new cell, the local variable \<open>diis\<close> holds
  its address, and \<open>diis.update\<close> reads and overwrites the cell.
\<close>

type_synonym 'h store = "'h DIIS list"

text \<open>
  One pass of the inner loop body (lines 235--262); the flag is \<open>True\<close> on \<open>break\<close>.
  The Green's function built on lines 245--246 has one pole for every eigenvalue of the
  extended Hamiltonian, \<open>naux + nmo\<close> of them (\<open>nqmoa\<close>, \<open>nqmob\<close> in the source).
\<close>

definition inner_step ::
  "'v UAGF2 \<Rightarrow> ('v, 'm, 't) collaborators \<Rightarrow> ('v, 'm, 'h) solver_collaborators \<Rightarrow>
   ('t, 'm) ChemistsERIs \<Rightarrow> nat \<Rightarrow> int \<Rightarrow> ('v, 'm) fock_locals \<times> 'h store \<Rightarrow>
   error + (bool \<times> ('v, 'm) fock_locals \<times> 'h store)" where
  "inner_step agf2 ops sv eri diis n s =
     (let st = fst s; h = snd s;
          nalph = fst (nocc agf2); nbeta = snd (nocc agf2);
          nmoa = fst (nmo agf2); nmob = snd (nmo agf2);
          wva0 = aux_eig sv (sea st) (focka st) (Some 0);
          wvb0 = aux_eig sv (seb st) (fockb st) (Some 0);
          ra = binsearch_chempot sv (Inr wva0) nmoa nalph 1;
          sea1 = (sea st)\<lparr>chempot := fst ra\<rparr>;
          rb = binsearch_chempot sv (Inr wvb0) nmob nbeta 1;
          seb1 = (seb st)\<lparr>chempot := fst rb\<rparr>;
          nerr1 = max (snd ra) (snd rb);
          wva = aux_eig sv sea1 (focka st) None;
          wvb = aux_eig sv seb1 (fockb st) None;
          gfa = \<lparr>kind = GreensFunction, energy = fst wva,
                 coupling = rows_upto sv (snd wva) nmoa, chempot = chempot sea1,
                 naux = naux sea1 + nmoa\<rparr>;
          gfb = \<lparr>kind = GreensFunction, energy = fst wvb,
                 coupling = rows_upto sv (snd wvb) nmob, chempot = chempot seb1,
                 naux = naux seb1 + nmob\<rparr>;
          gf1 = (gfa, gfb)
      in case get_fock ops eri (Some gf1) None of
           Inl e \<Rightarrow> Inl e
         | Inr fk \<Rightarrow>
             (let rdm1 = make_rdm1 ops gf1;
                  up = diis_update sv (h ! diis) fk;
                  h1 = h[diis := snd up];
                  st1 = st\<lparr>niter2 := Some n, sea := sea1, seb := seb1,
                           nerra := Some (snd ra), nerrb := Some (snd rb), nerr := Some nerr1,
                           gf := gf1, focka := fst (fst up), fockb := snd (fst up)\<rparr>;
                  st3 = st1\<lparr>rdm1a_prev := Some (fst rdm1), rdm1b_prev := Some (snd rdm1)\<rparr>
              in if n > 1 then
                   (case load ''rdm1a_prev'' (rdm1a_prev st1) of
                      Inl e \<Rightarrow> Inl e
                    | Inr pa \<Rightarrow>
                        (case load ''rdm1b_prev'' (rdm1b_prev st1) of
                           Inl e \<Rightarrow> Inl e
                         | Inr pb \<Rightarrow>
                             (let da = np_max_absolute sv (np_sub ops (fst rdm1) pa);
                                  db = np_max_absolute sv (np_sub ops (snd rdm1) pb);
                                  d = max da db;
                                  st2 = st1\<lparr>derra := Some da, derrb := Some db, derr := Some d\<rparr>
                              in if d < conv_tol_rdm1 agf2 then Inr (True, st2, h1)
                                 else Inr (False,
                                        st2\<lparr>rdm1a_prev := Some (fst rdm1),
                                            rdm1b_prev := Some (snd rdm1)\<rparr>, h1))))
                 else Inr (False, st3, h1)))"

text \<open>\<open>for niter2 in range(1, agf2.max_cycle_inner+1)\<close>, over the list of its values.\<close>

fun inner_loop ::
  "'v UAGF2 \<Rightarrow> ('v, 'm, 't) collaborators \<Rightarrow> ('v, 'm, 'h) solver_collaborators \<Rightarrow>
   ('t, 'm) ChemistsERIs \<Rightarrow> nat \<Rightarrow> int list \<Rightarrow> ('v, 'm) fock_locals \<times> 'h store \<Rightarrow>
   error + (('v, 'm) fock_locals \<times> 'h store)" where
  "inner_loop agf2 ops sv eri diis [] s = Inr s"
| "inner_loop agf2 ops sv eri diis (n # ns) s =
     (case inner_step agf2 ops sv eri diis n s of
        Inl e \<Rightarrow> Inl e
      | Inr r \<Rightarrow> if fst r then Inr (snd r) else inner_loop agf2 ops sv eri diis ns (snd r))"

text \<open>
  One pass of the outer loop body (lines 229--270). The call of \<open>log.debug1\<close> evaluates
  its arguments \<open>niter2\<close>, \<open>nerr\<close>, \<open>derr\<close> whatever the verbosity.
\<close>

definition outer_step ::
  "'v UAGF2 \<Rightarrow> ('v, 'm, 't) collaborators \<Rightarrow> ('v, 'm, 'h) solver_collaborators \<Rightarrow>
   ('t, 'm) ChemistsERIs \<Rightarrow> nat \<Rightarrow> ('v, 'm) fock_locals \<times> 'h store \<Rightarrow>
   error + (bool \<times> ('v, 'm) fock_locals \<times> 'h store)" where
  "outer_step agf2 ops sv eri diis s =
     (let st = fst s; h = snd s;
          nalph = fst (nocc agf2); nbeta = snd (nocc agf2);
          sea1 = minimize_chempot sv (sea st) (focka st) nalph (chempot (sea st))
                   (conv_tol_nelec agf2) (max_cycle_inner agf2);
          seb1 = minimize_chempot sv (seb st) (fockb st) nbeta (chempot (seb st))
                   (conv_tol_nelec agf2) (max_cycle_inner agf2);
          s1 = (st\<lparr>sea := sea1, seb := seb1\<rparr>, h)
      in case inner_loop agf2 ops sv eri diis [1..max_cycle_inner agf2] s1 of
           Inl e \<Rightarrow> Inl e
         | Inr s2 \<Rightarrow>
             (case load ''niter2'' (niter2 (fst s2)) of
                Inl e \<Rightarrow> Inl e
              | Inr _ \<Rightarrow>
                  (case load ''nerr'' (nerr (fst s2)) of
                     Inl e \<Rightarrow> Inl e
                   | Inr ne \<Rightarrow>
                       (case load ''derr'' (derr (fst s2)) of
                          Inl e \<Rightarrow> Inl e
                        | Inr de \<Rightarrow>
                            if de < conv_tol_rdm1 agf2 \<and> \<bar>ne\<bar> < conv_tol_nelec agf2
                            then Inr (True, (fst s2)\<lparr>converged := True\<rparr>, snd s2)
                            else Inr (False, s2)))))"

text \<open>
  \<open>for niter1 in range(1, agf2.max_cycle_outer+1)\<close>; the body reads \<open>niter1\<close> only to
  print it.
\<close>

fun outer_loop ::
  "'v UAGF2 \<Rightarrow> ('v, 'm, 't) collaborators \<Rightarrow> ('v, 'm, 'h) solver_collaborators \<Rightarrow>
   ('t, 'm) ChemistsERIs \<Rightarrow> nat \<Rightarrow> int list \<Rightarrow> ('v, 'm) fock_locals \<times> 'h store \<Rightarrow>
   error + (('v, 'm) fock_locals \<times> 'h store)" where
  "outer_loop agf2 ops sv eri diis [] s = Inr s"
| "outer_loop agf2 ops sv eri diis (n # ns) s =
     (case outer_step agf2 ops sv eri diis s of
        Inl e \<Rightarrow> Inl e
      | Inr r \<Rightarrow> if fst r then Inr (snd r) else outer_loop agf2 ops sv eri diis ns (snd r))"

text \<open>
  \<open>fock_loop(agf2, eri, gf, se, get_fock=None)\<close> run on a store \<open>h\<close> of DIIS objects left
  by whatever ran before. \<open>fock_loop_locals\<close> gives the local variables and the store at
  the \<open>return\<close> statement; \<open>fock_loop\<close> is the value returned.
\<close>

definition fock_loop_locals ::
  "'h store \<Rightarrow> 'v UAGF2 \<Rightarrow> ('v, 'm, 't) collaborators \<Rightarrow>
   ('v, 'm, 'h) solver_collaborators \<Rightarrow> ('t, 'm) ChemistsERIs \<Rightarrow>
   ('v, 'm) auxiliary \<times> ('v, 'm) auxiliary \<Rightarrow> ('v, 'm) auxiliary \<times> ('v, 'm) auxiliary \<Rightarrow>
   (('t, 'm) ChemistsERIs \<Rightarrow> ('v, 'm) auxiliary \<times> ('v, 'm) auxiliary \<Rightarrow> error + ('m \<times> 'm)) option \<Rightarrow>
   error + (('v, 'm) fock_locals \<times> 'h store)" where
  "fock_loop_locals h agf2 ops sv eri gf0 se0 get_fock_kw =
     (if kind (fst gf0) \<noteq> GreensFunction then Inl AssertionError
      else if kind (snd gf0) \<noteq> GreensFunction then Inl AssertionError
      else if kind (fst se0) \<noteq> SelfEnergy then Inl AssertionError
      else if kind (snd se0) \<noteq> SelfEnergy then Inl AssertionError
      else
        (let get_fock1 = (case get_fock_kw of
                            None \<Rightarrow> (\<lambda>e g. get_fock ops e (Some g) None)
                          | Some f \<Rightarrow> f);
             diis = length h;
             h0 = h @ [DIIS_new sv];
             h1 = h0[diis := (h0 ! diis)\<lparr>space := diis_space agf2\<rparr>];
             h2 = h1[diis := (h1 ! diis)\<lparr>min_space := diis_min_space agf2\<rparr>]
         in case get_fock1 eri gf0 of
              Inl e \<Rightarrow> Inl e
            | Inr fk \<Rightarrow>
                (let st0 = \<lparr>focka = fst fk, fockb = snd fk, sea = fst se0, seb = snd se0,
                            gf = gf0, converged = False, niter2 = None,
                            nerra = None, nerrb = None, nerr = None,
                            derra = None, derrb = None, derr = None,
                            rdm1a_prev = None, rdm1b_prev = None\<rparr>
                 in case outer_loop agf2 ops sv eri diis [1..max_cycle_outer agf2] (st0, h2) of
                      Inl e \<Rightarrow> Inl e
                    | Inr s \<Rightarrow>
                        (case load ''nerra'' (nerra (fst s)) of
                           Inl e \<Rightarrow> Inl e
                         | Inr _ \<Rightarrow>
                             (case load ''derra'' (derra (fst s)) of
                                Inl e \<Rightarrow> Inl e
                              | Inr _ \<Rightarrow>
                                  (case load ''nerrb'' (nerrb (fst s)) of
                                     Inl e \<Rightarrow> Inl e
                                   | Inr _ \<Rightarrow>
                                       (case load ''derrb'' (derrb (fst s)) of
                                          Inl e \<Rightarrow> Inl e
                                        | Inr _ \<Rightarrow> Inr s)))))))"

definition fock_loop ::
  "'h store \<Rightarrow> 'v UAGF2 \<Rightarrow> ('v, 'm, 't) collaborators \<Rightarrow>
   ('v, 'm, 'h) solver_collaborators \<Rightarrow> ('t, 'm) ChemistsERIs \<Rightarrow>
   ('v, 'm) auxiliary \<times> ('v, 'm) auxiliary \<Rightarrow> ('v, 'm) auxiliary \<times> ('v, 'm) auxiliary \<Rightarrow>
   (('t, 'm) ChemistsERIs \<Rightarrow> ('v, 'm) auxiliary \<times> ('v, 'm) auxiliary \<Rightarrow> error + ('m \<times> 'm)) option \<Rightarrow>
   error + ((('v, 'm) auxiliary \<times> ('v, 'm) auxiliary) \<times>
            (('v, 'm) auxiliary \<times> ('v, 'm) auxiliary) \<times> bool)" where
  "fock_loop h agf2 ops sv eri gf0 se0 get_fock_kw =
     (case fock_loop_locals h agf2 ops sv eri gf0 se0 get_fock_kw of
        Inl e \<Rightarrow> Inl e
      | Inr s \<Rightarrow> Inr (gf (fst s), (sea (fst s), seb (fst s)), converged (fst s)))"

section \<open>Arrays of the self-energy builder\<close>

text \<open>
  The builder indexes its arrays, so they are concrete here: an array is the function
  from its indices to its entries, and its shape is carried by the variables the source
  keeps it in (\<open>nmoa\<close>, \<open>noa\<close>, \<open>nva\<close>, ...). The numpy and \<open>lib\<close> operations the
  builder uses are written out on that representation, row-major as numpy stores them.
\<close>

type_synonym vec = "nat \<Rightarrow> real"
type_synonym mat = "nat \<Rightarrow> nat \<Rightarrow> real"
type_synonym tensor4 = "nat \<Rightarrow> nat \<Rightarrow> nat \<Rightarrow> nat \<Rightarrow> real"

definition np_zeros :: mat where
  "np_zeros = (\<lambda>p q. 0)"

definition np_eye :: "nat \<Rightarrow> mat" where
  "np_eye n = (\<lambda>p q. if p = q then 1 else 0)"

text \<open>\<open>g.reshape(n1, n2, n3, n4)\<close> of a matrix \<open>g\<close> with \<open>n1*n2\<close> rows and \<open>n3*n4\<close> columns.\<close>

definition reshape4 :: "mat \<Rightarrow> nat \<Rightarrow> nat \<Rightarrow> tensor4" where
  "reshape4 g n2 n4 = (\<lambda>x i j a. g (x * n2 + i) (j * n4 + a))"

text \<open>\<open>q[:,i].reshape(nmoa, -1)\<close> for \<open>q\<close> of shape \<open>(nmoa, n2, n3, n4)\<close>.\<close>

definition slice1_flat :: "tensor4 \<Rightarrow> nat \<Rightarrow> nat \<Rightarrow> mat" where
  "slice1_flat q i n4 = (\<lambda>x k. q x i (k div n4) (k mod n4))"

text \<open>\<open>q[:,:,i].reshape(nmoa, -1)\<close> for \<open>q\<close> of shape \<open>(nmoa, n2, n3, n4)\<close>.\<close>

definition slice2_flat :: "tensor4 \<Rightarrow> nat \<Rightarrow> nat \<Rightarrow> mat" where
  "slice2_flat q i n4 = (\<lambda>x k. q x (k div n4) i (k mod n4))"

text \<open>\<open>lib.direct_sum('j,a->ja', x, y).ravel()\<close> for \<open>y\<close> of length \<open>n\<close>.\<close>

definition direct_sum_ravel :: "vec \<Rightarrow> vec \<Rightarrow> nat \<Rightarrow> vec" where
  "direct_sum_ravel x y n = (\<lambda>k. x (k div n) + y (k mod n))"

text \<open>
  \<open>lib.dot(a, b.T, alpha=alpha, beta=beta, c=c)\<close>, that is \<open>alpha * a @ b.T + beta * c\<close>,
  for \<open>a\<close> and \<open>b\<close> with \<open>K\<close> columns.
\<close>

definition lib_dot_T :: "nat \<Rightarrow> mat \<Rightarrow> mat \<Rightarrow> real \<Rightarrow> real \<Rightarrow> mat \<Rightarrow> mat" where
  "lib_dot_T K a b alpha beta c =
     (\<lambda>p q. alpha * (\<Sum>k<K. a p k * b q k) + beta * c p q)"

text \<open>\<open>x * e[None]\<close>: every row of \<open>x\<close> multiplied elementwise by the vector \<open>e\<close>.\<close>

definition scale_columns :: "mat \<Rightarrow> vec \<Rightarrow> mat" where
  "scale_columns x e = (\<lambda>p k. x p k * e k)"

section \<open>Calls and names\<close>

text \<open>
  Python binds the arguments of a call before it runs the body: a keyword that is not
  a parameter of the function, or that names a parameter already filled by position, is
  a \<open>TypeError\<close>. \<open>bind_call params npos kws\<close> binds \<open>npos\<close> positional arguments
  and the keywords \<open>kws\<close> to the parameters \<open>params\<close>.
\<close>

definition bind_call :: "string list \<Rightarrow> nat \<Rightarrow> string list \<Rightarrow> error + unit" where
  "bind_call params npos kws =
     (if length params < npos then Inl (TypeError ''too many positional arguments'')
      else case filter (\<lambda>k. k \<notin> set params) kws of
             k # _ \<Rightarrow> Inl (TypeError (''unexpected keyword argument '' @ k))
           | [] \<Rightarrow>
               (case filter (\<lambda>k. k \<in> set (take npos params)) kws of
                  k # _ \<Rightarrow> Inl (TypeError (''multiple values for argument '' @ k))
                | [] \<Rightarrow> Inr ()))"

text \<open>The names the module binds at top level (imports, constants, functions, classes).\<close>

definition module_globals :: "string list" where
  "module_globals =
     [''time'', ''np'', ''lib'', ''logger'', ''__config__'', ''ao2mo'', ''_vhf'', ''aux'',
      ''mpi_helper'', ''ragf2'', ''binsearch_chempot'', ''minimize_chempot'', ''get_nocc'',
      ''get_nmo'', ''get_frozen_mask'', ''BLKMIN'', ''kernel'', ''build_se_part'', ''get_jk'',
      ''get_fock'', ''fock_loop'', ''energy_1body'', ''energy_2body'', ''energy_mp2'',
      ''UAGF2'', ''_mo_energy_without_core'', ''_mo_without_core'', ''_ChemistsERIs'',
      ''_make_mo_eris_incore'', ''_make_mo_eris_outcore'', ''_make_qmo_eris_incore'',
      ''_make_qmo_eris_outcore'']"

text \<open>The builtins the module's functions mention.\<close>

definition builtins :: "string list" where
  "builtins =
     [''getattr'', ''type'', ''range'', ''max'', ''min'', ''abs'', ''int'', ''dict'', ''set'',
      ''list'', ''slice'', ''print'', ''None'', ''True'', ''False'']"

text \<open>Reading a name that is neither local, global nor builtin raises \<open>NameError\<close>.\<close>

definition resolve :: "string list \<Rightarrow> string \<Rightarrow> error + unit" where
  "resolve locals name =
     (if name \<in> set locals \<or> name \<in> set module_globals \<or> name \<in> set builtins
      then Inr () else Inl (NameError name))"

section \<open>The quasi-particle transform\<close>

text \<open>
  What the transform returns: for \<open>spin = 0\<close> the pair \<open>(aaaa, aabb)\<close>, for \<open>spin = 1\<close>
  the pair \<open>(bbbb, bbaa)\<close>, and for \<open>spin = None\<close> the nested tuple of all four.
\<close>

datatype qmo_eris =
    Spin_pair tensor4 tensor4
  | All_pairs "tensor4 \<times> tensor4" "tensor4 \<times> tensor4"

type_synonym gf_pair = "(vec, mat) auxiliary \<times> (vec, mat) auxiliary"

text \<open>
  The collaborators of the builder:
  \<^item> \<open>ao2mo_incore_general t cs\<close> is \<open>ao2mo.incore.general(t, cs, compact=False)\<close>, a
    matrix with one row per pair of the first two indices and one column per pair of
    the last two;
  \<^item> \<open>cholesky_build vv vev gfo gfv\<close> is \<open>ragf2._cholesky_build(vv, vev, gfo, gfv)\<close>: the
    energies and couplings of the poles, and with them the number of poles (the shape
    of the arrays returned);
  \<^item> \<open>remove_uncoupled se tol\<close> is \<open>se\<close> after \<open>se.remove_uncoupled(tol=tol)\<close>;
  \<^item> \<open>current_memory spin\<close> is the value of \<open>lib.current_memory()[0]\<close> read while the
    given spin is built;
  \<^item> \<open>get_occupied\<close>, \<open>get_virtual\<close> and \<open>combine\<close> are those of \<open>aux\<close>;
  \<^item> \<open>get_frozen_mask\<close> is \<open>agf2.get_frozen_mask()\<close> and \<open>index_mask x m\<close> is the numpy
    selection \<open>x[m]\<close>;
  \<^item> \<open>outcore_rest\<close> is the part of \<open>_make_qmo_eris_outcore\<close> after line 796 (HDF5
    datasets and the blocked \<open>ao2mo\<close> kernels).
\<close>

record ('t, 'k) builder_collaborators =
  ao2mo_incore_general :: "'t \<Rightarrow> mat \<times> mat \<times> mat \<times> mat \<Rightarrow> mat"
  cholesky_build ::
    "mat \<Rightarrow> mat \<Rightarrow> (vec, mat) auxiliary \<Rightarrow> (vec, mat) auxiliary \<Rightarrow> (vec \<times> mat) \<times> nat"
  remove_uncoupled :: "(vec, mat) auxiliary \<Rightarrow> real \<Rightarrow> (vec, mat) auxiliary"
  current_memory :: "nat \<Rightarrow> real"
  get_occupied :: "(vec, mat) auxiliary \<Rightarrow> (vec, mat) auxiliary"
  get_virtual :: "(vec, mat) auxiliary \<Rightarrow> (vec, mat) auxiliary"
  combine :: "(vec, mat) auxiliary \<Rightarrow> (vec, mat) auxiliary \<Rightarrow> (vec, mat) auxiliary"
  get_frozen_mask :: "'k \<times> 'k"
  index_mask :: "vec \<Rightarrow> 'k \<Rightarrow> vec"
  outcore_rest ::
    "vec UAGF2 \<Rightarrow> ('t, mat) ChemistsERIs \<Rightarrow> gf_pair \<Rightarrow> gf_pair \<Rightarrow> error + qmo_eris"

text \<open>
  \<open>_make_qmo_eris_incore(agf2, eri, gf_occ, gf_vir, spin=None)\<close>. For a \<open>spin\<close> other
  than \<open>None\<close>, 0 and 1 no branch binds \<open>qeri\<close>, and \<open>return qeri\<close> raises.
\<close>

definition make_qmo_eris_incore ::
  "('t, 'k) builder_collaborators \<Rightarrow> vec UAGF2 \<Rightarrow> ('t, mat) ChemistsERIs \<Rightarrow>
   gf_pair \<Rightarrow> gf_pair \<Rightarrow> nat option \<Rightarrow> error + qmo_eris" where
  "make_qmo_eris_incore bc agf2 eri gf_occ gf_vir spin =
     (let nmoa = fst (nmo agf2); nmob = snd (nmo agf2);
          cia = coupling (fst gf_occ); cja = coupling (fst gf_occ);
          cib = coupling (snd gf_occ); cjb = coupling (snd gf_occ);
          caa = coupling (fst gf_vir); cab = coupling (snd gf_vir);
          nia = naux (fst gf_occ); nja = naux (fst gf_occ);
          nib = naux (snd gf_occ); njb = naux (snd gf_occ);
          naa = naux (fst gf_vir); nab = naux (snd gf_vir);
          c_aa = (np_eye nmoa, cia, cja, caa);
          c_ab = (np_eye nmoa, cia, cjb, cab);
          qeri_aa = reshape4 (ao2mo_incore_general bc (eri_aa eri) c_aa) nia naa;
          qeri_ab = reshape4 (ao2mo_incore_general bc (eri_ab eri) c_ab) nia nab;
          c_bb = (np_eye nmob, cib, cjb, cab);
          c_ba = (np_eye nmob, cib, cja, caa);
          qeri_bb = reshape4 (ao2mo_incore_general bc (eri_bb eri) c_bb) nib nab;
          qeri_ba = reshape4 (ao2mo_incore_general bc (eri_ba eri) c_ba) nib naa
      in if spin = None then Inr (All_pairs (qeri_aa, qeri_ab) (qeri_ba, qeri_bb))
         else if spin = Some 0 then Inr (Spin_pair qeri_aa qeri_ab)
         else if spin = Some 1 then Inr (Spin_pair qeri_bb qeri_ba)
         else Inl (UnboundLocalError ''qeri''))"

text \<open>
  \<open>_make_qmo_eris_outcore(agf2, eri, gf_occ, gf_vir)\<close>: the parameters, and the body up
  to line 796, whose right-hand side reads the name \<open>nmo\<close>. The local names bound by
  then are the parameters and \<open>cput0\<close>, \<open>log\<close>, \<open>nmoa\<close>, \<open>nmob\<close>.
\<close>

definition make_qmo_eris_outcore_params :: "string list" where
  "make_qmo_eris_outcore_params = [''agf2'', ''eri'', ''gf_occ'', ''gf_vir'']"

definition make_qmo_eris_outcore ::
  "('t, 'k) builder_collaborators \<Rightarrow> vec UAGF2 \<Rightarrow> ('t, mat) ChemistsERIs \<Rightarrow>
   gf_pair \<Rightarrow> gf_pair \<Rightarrow> error + qmo_eris" where
  "make_qmo_eris_outcore bc agf2 eri gf_occ gf_vir =
     (case resolve (make_qmo_eris_outcore_params @ [''cput0'', ''log'', ''nmoa'', ''nmob''])
             ''nmo'' of
        Inl e \<Rightarrow> Inl e
      | Inr _ \<Rightarrow> outcore_rest bc agf2 eri gf_occ gf_vir)"

text \<open>
  The call on line 99, \<open>_make_qmo_eris_outcore(agf2, eri, gf_occ, gf_vir, spin=spin)\<close>:
  four positional arguments and the keyword \<open>spin\<close>.
\<close>

definition call_make_qmo_eris_outcore ::
  "('t, 'k) builder_collaborators \<Rightarrow> vec UAGF2 \<Rightarrow> ('t, mat) ChemistsERIs \<Rightarrow>
   gf_pair \<Rightarrow> gf_pair \<Rightarrow> nat \<Rightarrow> error + qmo_eris" where
  "call_make_qmo_eris_outcore bc agf2 eri gf_occ gf_vir spin =
     (case bind_call make_qmo_eris_outcore_params 4 [''spin''] of
        Inl e \<Rightarrow> Inl e
      | Inr _ \<Rightarrow> make_qmo_eris_outcore bc agf2 eri gf_occ gf_vir)"

section \<open>The self-energy builder\<close>

text \<open>
  The accumulation loop of \<open>_build_se_part_spin\<close> (lines 88--92 and 103--120): one pass
  for the hole \<open>i\<close>, and the loop over \<open>range(noa)\<close>.
\<close>

definition moments_step ::
  "(vec, mat) auxiliary \<Rightarrow> (vec, mat) auxiliary \<Rightarrow> (vec, mat) auxiliary \<Rightarrow>
   (vec, mat) auxiliary \<Rightarrow> tensor4 \<Rightarrow> tensor4 \<Rightarrow> nat \<Rightarrow> mat \<times> mat \<Rightarrow> mat \<times> mat" where
  "moments_step gfo_a gfo_b gfv_a gfv_b qeri_aa qeri_ab i acc =
     (let noa = naux gfo_a; nob = naux gfo_b; nva = naux gfv_a; nvb = naux gfv_b;
          eja_a = direct_sum_ravel (energy gfo_a) (\<lambda>a. - energy gfv_a a) nva;
          eja_b = direct_sum_ravel (energy gfo_b) (\<lambda>a. - energy gfv_b a) nvb;
          xija_aa = slice1_flat qeri_aa i nva;
          xija_ab = slice1_flat qeri_ab i nvb;
          xjia_aa = slice2_flat qeri_aa i nva;
          eija_aa = (\<lambda>k. eja_a k + energy gfo_a i);
          eija_ab = (\<lambda>k. eja_b k + energy gfo_a i);
          vv1 = lib_dot_T (noa * nva) xija_aa xija_aa 1 1 (fst acc);
          vv2 = lib_dot_T (noa * nva) xija_aa xjia_aa (- 1) 1 vv1;
          vv3 = lib_dot_T (nob * nvb) xija_ab xija_ab 1 1 vv2;
          exija_aa = scale_columns xija_aa eija_aa;
          exija_ab = scale_columns xija_ab eija_ab;
          vev1 = lib_dot_T (noa * nva) exija_aa xija_aa 1 1 (snd acc);
          vev2 = lib_dot_T (noa * nva) exija_aa xjia_aa (- 1) 1 vev1;
          vev3 = lib_dot_T (nob * nvb) exija_ab xija_ab 1 1 vev2
      in (vv3, vev3))"

definition se_moments ::
  "(vec, mat) auxiliary \<Rightarrow> (vec, mat) auxiliary \<Rightarrow> (vec, mat) auxiliary \<Rightarrow>
   (vec, mat) auxiliary \<Rightarrow> tensor4 \<Rightarrow> tensor4 \<Rightarrow> mat \<times> mat" where
  "se_moments gfo_a gfo_b gfv_a gfv_b qeri_aa qeri_ab =
     fold (moments_step gfo_a gfo_b gfv_a gfv_b qeri_aa qeri_ab) [0..<naux gfo_a]
       (np_zeros, np_zeros)"

text \<open>
  \<open>_build_se_part_spin(spin)\<close>: \<open>ab\<close> is the identity slice for \<open>spin = 0\<close> and the
  reversing slice otherwise. The transform is called with the spin, for which it returns
  a pair of arrays; the nested tuple it returns for \<open>spin = None\<close> cannot be sliced
  as an array, and that branch is never reached from here.
\<close>

definition ab_slice :: "nat \<Rightarrow> 'a \<times> 'a \<Rightarrow> 'a \<times> 'a" where
  "ab_slice spin p = (if spin = 0 then p else (snd p, fst p))"

definition build_se_part_spin ::
  "('t, 'k) builder_collaborators \<Rightarrow> vec UAGF2 \<Rightarrow> ('t, mat) ChemistsERIs \<Rightarrow>
   gf_pair \<Rightarrow> gf_pair \<Rightarrow> nat \<Rightarrow> error + (vec, mat) auxiliary" where
  "build_se_part_spin bc agf2 eri gf_occ gf_vir spin =
     (let nmoa = fst (ab_slice spin (nmo agf2));
          gfo_a = fst (ab_slice spin gf_occ); gfo_b = snd (ab_slice spin gf_occ);
          gfv_a = fst (ab_slice spin gf_vir); gfv_b = snd (ab_slice spin gf_vir);
          noa = naux gfo_a; nob = naux gfo_b;
          nva = naux gfv_a; nvb = naux gfv_b;
          mem_incore = real (nmoa * noa * (noa * nva + nob * nvb)) * 8 / 1000000;
          mem_now = current_memory bc spin
      in case (if mem_incore + mem_now < max_memory agf2
               then make_qmo_eris_incore bc agf2 eri gf_occ gf_vir (Some spin)
               else call_make_qmo_eris_outcore bc agf2 eri gf_occ gf_vir spin) of
           Inl e \<Rightarrow> Inl e
         | Inr (All_pairs x y) \<Rightarrow> Inl (TypeError ''qeri is not a pair of arrays'')
         | Inr (Spin_pair qeri_aa qeri_ab) \<Rightarrow>
             (let m = se_moments gfo_a gfo_b gfv_a gfv_b qeri_aa qeri_ab;
                  ec = cholesky_build bc (fst m) (snd m) gfo_a gfv_a;
                  se = \<lparr>kind = SelfEnergy, energy = fst (fst ec), coupling = snd (fst ec),
                        chempot = chempot gfo_a, naux = snd ec\<rparr>
              in Inr (remove_uncoupled bc se (weight_tol agf2))))"

definition build_se_part ::
  "('t, 'k) builder_collaborators \<Rightarrow> vec UAGF2 \<Rightarrow> ('t, mat) ChemistsERIs \<Rightarrow>
   gf_pair \<Rightarrow> gf_pair \<Rightarrow> error + ((vec, mat) auxiliary \<times> (vec, mat) auxiliary)" where
  "build_se_part bc agf2 eri gf_occ gf_vir =
     (if kind (fst gf_occ) \<noteq> GreensFunction then Inl AssertionError
      else if kind (snd gf_occ) \<noteq> GreensFunction then Inl AssertionError
      else if kind (fst gf_vir) \<noteq> GreensFunction then Inl AssertionError
      else if kind (snd gf_vir) \<noteq> GreensFunction then Inl AssertionError
      else case build_se_part_spin bc agf2 eri gf_occ gf_vir 0 of
             Inl e \<Rightarrow> Inl e
           | Inr se_a \<Rightarrow>
               (case build_se_part_spin bc agf2 eri gf_occ gf_vir 1 of
                  Inl e \<Rightarrow> Inl e
                | Inr se_b \<Rightarrow> Inr (se_a, se_b)))"

text \<open>\<open>UAGF2.build_se(eri, gf)\<close> for integrals and a Green's function that are given.\<close>

definition build_se ::
  "('t, 'k) builder_collaborators \<Rightarrow> vec UAGF2 \<Rightarrow> ('t, mat) ChemistsERIs \<Rightarrow>
   gf_pair \<Rightarrow> error + ((vec, mat) auxiliary \<times> (vec, mat) auxiliary)" where
  "build_se bc agf2 eri g =
     (let gf_occ = (get_occupied bc (fst g), get_occupied bc (snd g));
          gf_vir = (get_virtual bc (fst g), get_virtual bc (snd g))
      in case build_se_part bc agf2 eri gf_occ gf_vir of
           Inl e \<Rightarrow> Inl e
         | Inr se_occ \<Rightarrow>
             (case build_se_part bc agf2 eri gf_vir gf_occ of
                Inl e \<Rightarrow> Inl e
              | Inr se_vir \<Rightarrow>
                  Inr (combine bc (fst se_occ) (fst se_vir),
                       combine bc (snd se_occ) (snd se_vir))))"

section \<open>The Hartree-Fock Green's function: \<open>init_aux\<close>\<close>

definition mo_energy_without_core ::
  "('t, 'k) builder_collaborators \<Rightarrow> vec \<times> vec \<Rightarrow> vec \<times> vec" where
  "mo_energy_without_core bc mo_e =
     (let maska = fst (get_frozen_mask bc); maskb = snd (get_frozen_mask bc);
          emo_a = index_mask bc (fst mo_e) maska;
          emo_b = index_mask bc (snd mo_e) maskb
      in (emo_a, emo_b))"

text \<open>
  \<open>UAGF2.init_aux(eri, with_se)\<close> for integrals that are given. The two chemical
  potentials are read off the results of \<open>binsearch_chempot\<close> with the indices the
  source writes: \<open>[0]\<close> for alpha (line 517) and \<open>[1]\<close> for beta (line 518).
\<close>

definition init_aux ::
  "('t, 'k) builder_collaborators \<Rightarrow> (vec, mat, 'h) solver_collaborators \<Rightarrow> vec UAGF2 \<Rightarrow>
   ('t, mat) ChemistsERIs \<Rightarrow> bool \<Rightarrow>
   error + (gf_pair \<times> ((vec, mat) auxiliary \<times> (vec, mat) auxiliary) option)" where
  "init_aux bc sv agf2 eri with_se =
     (let focka = fst (fock eri); fockb = snd (fock eri);
          nmoa = fst (nmo agf2); nmob = snd (nmo agf2);
          nocca = fst (nocc agf2); noccb = snd (nocc agf2);
          mo_e = mo_energy_without_core bc (mo_energy agf2);
          cpt_a = fst (binsearch_chempot sv (Inl focka) nmoa nocca 1);
          cpt_b = snd (binsearch_chempot sv (Inl fockb) nmob noccb 1);
          gf_a = \<lparr>kind = GreensFunction, energy = fst mo_e, coupling = np_eye nmoa,
                  chempot = cpt_a, naux = nmoa\<rparr>;
          gf_b = \<lparr>kind = GreensFunction, energy = snd mo_e, coupling = np_eye nmob,
                  chempot = cpt_b, naux = nmob\<rparr>;
          g = (gf_a, gf_b)
      in if with_se then
           (case build_se bc agf2 eri g of
              Inl e \<Rightarrow> Inl e
            | Inr se \<Rightarrow> Inr (g, Some se))
         else Inr (g, None))"

section \<open>Reading results\<close>

text \<open>\<open>on_result f r\<close> applies \<open>f\<close> to what a call returned and keeps what it raised.\<close>

definition on_result :: "('a \<Rightarrow> 'b) \<Rightarrow> error + 'a \<Rightarrow> error + 'b" where
  "on_result f r = (case r of Inl e \<Rightarrow> Inl e | Inr x \<Rightarrow> Inr (f x))"

text \<open>
  \<open>restore h a r\<close> puts the one cell of a run on a single-cell store back at address
  \<open>a\<close> of the store \<open>h\<close>.
\<close>

definition restore :: "'h store \<Rightarrow> nat \<Rightarrow> 'a \<times> 'h store \<Rightarrow> 'a \<times> 'h store" where
  "restore h a r = (fst r, h[a := snd r ! 0])"

section \<open>The moments as the specification states them\<close>

text \<open>
  The zeroth moment in the words of the specification: the sum over the same-spin
  holes \<open>i\<close> of the direct term, minus the exchange term (the two occupied auxiliary
  axes of one factor swapped), plus the cross-spin direct term.
\<close>

definition moment_V_spec ::
  "(vec, mat) auxiliary \<Rightarrow> (vec, mat) auxiliary \<Rightarrow> (vec, mat) auxiliary \<Rightarrow>
   (vec, mat) auxiliary \<Rightarrow> tensor4 \<Rightarrow> tensor4 \<Rightarrow> mat" where
  "moment_V_spec gfo_a gfo_b gfv_a gfv_b qaa qab =
     (\<lambda>p q. \<Sum>i<naux gfo_a.
        (\<Sum>j<naux gfo_a. \<Sum>a<naux gfv_a. qaa p i j a * qaa q i j a)
      - (\<Sum>j<naux gfo_a. \<Sum>a<naux gfv_a. qaa p i j a * qaa q j i a)
      + (\<Sum>j<naux gfo_b. \<Sum>a<naux gfv_b. qab p i j a * qab q i j a))"

text \<open>
  The first moment: the same three terms, each product weighted by the combined pole
  energy, which is the energy of the hole \<open>i\<close> plus the energy of the second occupied
  pole minus the energy of the virtual pole.
\<close>

definition moment_VE_spec ::
  "(vec, mat) auxiliary \<Rightarrow> (vec, mat) auxiliary \<Rightarrow> (vec, mat) auxiliary \<Rightarrow>
   (vec, mat) auxiliary \<Rightarrow> tensor4 \<Rightarrow> tensor4 \<Rightarrow> mat" where
  "moment_VE_spec gfo_a gfo_b gfv_a gfv_b qaa qab =
     (\<lambda>p q. \<Sum>i<naux gfo_a.
        (\<Sum>j<naux gfo_a. \<Sum>a<naux gfv_a.
           (energy gfo_a i + energy gfo_a j - energy gfv_a a) * (qaa p i j a * qaa q i j a))
      - (\<Sum>j<naux gfo_a. \<Sum>a<naux gfv_a.
           (energy gfo_a i + energy gfo_a j - energy gfv_a a) * (qaa p i j a * qaa q j i a))
      + (\<Sum>j<naux gfo_b. \<Sum>a<naux gfv_b.
           (energy gfo_a i + energy gfo_b j - energy gfv_b a) * (qab p i j a * qab q i j a)))"

section \<open>The \<open>get_fock\<close> argument\<close>

text \<open>
  \<open>get_fock_returns kw eri g\<close>: the function given as \<open>get_fock\<close> to \<open>fock_loop\<close>, when
  one is given, returns on the integrals and the initial Green's function. The default,
  \<open>agf2.get_fock\<close>, always does.
\<close>

definition get_fock_returns ::
  "(('t, 'm) ChemistsERIs \<Rightarrow> ('v, 'm) auxiliary \<times> ('v, 'm) auxiliary \<Rightarrow> error + ('m \<times> 'm)) option \<Rightarrow>
   ('t, 'm) ChemistsERIs \<Rightarrow> ('v, 'm) auxiliary \<times> ('v, 'm) auxiliary \<Rightarrow> bool" where
  "get_fock_returns kw eri g =
     (case kw of
        None \<Rightarrow> True
      | Some f \<Rightarrow> (case f eri g of Inl e \<Rightarrow> False | Inr fk \<Rightarrow> True))"

section \<open>Bound local variables\<close>

text \<open>
  \<open>all_bound st\<close>: every local variable of \<open>fock_loop\<close> that the loops bind is bound.
\<close>

definition all_bound :: "('v, 'm) fock_locals \<Rightarrow> bool" where
  "all_bound st =
     (niter2 st \<noteq> None \<and> nerra st \<noteq> None \<and> nerrb st \<noteq> None \<and> nerr st \<noteq> None \<and>
      derra st \<noteq> None \<and> derrb st \<noteq> None \<and> derr st \<noteq> None \<and>
      rdm1a_prev st \<noteq> None \<and> rdm1b_prev st \<noteq> None)"

text \<open>
  \<open>errors_coherent st\<close>: if \<open>nerr\<close> is bound, it is the maximum of \<open>nerra\<close> and
  \<open>nerrb\<close>. \<open>verdict agf2 st\<close>: the errors are bound, and \<open>converged\<close> is the
  outcome of the test on line 268 applied to them.
\<close>

definition errors_coherent :: "('v, 'm) fock_locals \<Rightarrow> bool" where
  "errors_coherent st =
     (case nerr st of
        None \<Rightarrow> True
      | Some ne \<Rightarrow>
          (case (nerra st, nerrb st) of
             (Some a, Some b) \<Rightarrow> ne = max a b
           | _ \<Rightarrow> False))"

definition verdict :: "'v UAGF2 \<Rightarrow> ('v, 'm) fock_locals \<Rightarrow> bool" where
  "verdict agf2 st =
     (case (derr st, nerra st, nerrb st, nerr st) of
        (Some de, Some a, Some b, Some ne) \<Rightarrow>
          ne = max a b \<and>
          converged st = (de < conv_tol_rdm1 agf2 \<and> \<bar>max a b\<bar> < conv_tol_nelec agf2)
      | _ \<Rightarrow> False)"

section \<open>A one-orbital system\<close>

text \<open>
  A system small enough to run by hand: one orbital per spin, one alpha electron and
  no beta electron, the default tolerances and iteration limits of \<open>UAGF2\<close>. The
  collaborators are simple functions of the right shape: the density matrix does not
  change from one pass to the next, and \<open>binsearch_chempot\<close> reports the chemical
  potential \<open>-1/2\<close> and an electron-number error of minus the target (one electron too
  many for alpha, none for beta).
\<close>

definition example_agf2 :: "vec UAGF2" where
  "example_agf2 =
     \<lparr>max_memory = 4000, conv_tol_rdm1 = 1 / 10 ^ 6, conv_tol_nelec = 1 / 10 ^ 6,
      max_cycle_outer = 20, max_cycle_inner = 50, weight_tol = 1 / 10 ^ 11,
      diis_space = 6, diis_min_space = 1, nmo = (1, 1), nocc = (1, 0),
      mo_energy = (\<lambda>_. - 1, \<lambda>_. - 1)\<rparr>"

definition example_ops :: "(vec, mat, unit) collaborators" where
  "example_ops =
     \<lparr>np_add = (\<lambda>x y p q. x p q + y p q),
      np_sub = (\<lambda>x y p q. x p q - y p q),
      get_jk = (\<lambda>_ _ _. (np_zeros, np_zeros)),
      aux_make_rdm1 = (\<lambda>_ _. np_eye 1),
      ragf2_energy_2body = (\<lambda>_ _. 0)\<rparr>"

definition example_solver :: "(vec, mat, nat) solver_collaborators" where
  "example_solver =
     \<lparr>minimize_chempot = (\<lambda>se _ _ _ _ _. se),
      aux_eig = (\<lambda>se _ _. (energy se, coupling se)),
      binsearch_chempot = (\<lambda>_ _ nelec _. (- 1 / 2, - real nelec)),
      DIIS_new = \<lparr>space = 6, min_space = 1, history = 0\<rparr>,
      diis_update = (\<lambda>d x. (x, d\<lparr>history := Suc (history d)\<rparr>)),
      rows_upto = (\<lambda>v _. v),
      np_max_absolute = (\<lambda>m. \<bar>m 0 0\<bar>)\<rparr>"

definition example_builder :: "(unit, unit) builder_collaborators" where
  "example_builder =
     \<lparr>ao2mo_incore_general = (\<lambda>_ _. (\<lambda>_ _. 1)),
      cholesky_build = (\<lambda>vv vev _ _. ((\<lambda>k. vev 0 0, vv), 1)),
      remove_uncoupled = (\<lambda>se _. se),
      current_memory = (\<lambda>_. 100),
      get_occupied = (\<lambda>g. g),
      get_virtual = (\<lambda>g. g),
      combine = (\<lambda>a _. a),
      get_frozen_mask = ((), ()),
      index_mask = (\<lambda>x _. x),
      outcore_rest = (\<lambda>agf2 eri gf_occ gf_vir.
         Inr (Spin_pair (\<lambda>_ _ _ _. 1) (\<lambda>_ _ _ _. 1)))\<rparr>"

definition example_eri :: "(unit, mat) ChemistsERIs" where
  "example_eri =
     \<lparr>h1e = (\<lambda>_ _. - 1, \<lambda>_ _. - 1), fock = (\<lambda>_ _. - 1, \<lambda>_ _. - 1),
      eri_aa = (), eri_ab = (), eri_ba = (), eri_bb = ()\<rparr>"

definition example_gf :: "(vec, mat) auxiliary" where
  "example_gf = \<lparr>kind = GreensFunction, energy = (\<lambda>_. - 1), coupling = np_eye 1,
                  chempot = 0, naux = 1\<rparr>"

definition example_se :: "(vec, mat) auxiliary" where
  "example_se = \<lparr>kind = SelfEnergy, energy = (\<lambda>_. 1), coupling = np_eye 1,
                  chempot = 0, naux = 1\<rparr>"

section \<open>Auxiliary facts\<close>

lemma on_result_simps [simp]:
  "on_result f (Inl e) = Inl e" "on_result f (Inr x) = Inr (f x)"
  by (simp_all add: on_result_def)

lemmas example_defs =
  example_agf2_def example_ops_def example_solver_def example_builder_def example_eri_def
  example_gf_def example_se_def

section \<open>Fock matrix and energies\<close>

text \<open>
  C10. When \<open>get_fock\<close> is given both a Green's function and a density matrix, the
  density matrix is recomputed from the Green's function and the one supplied is
  ignored: the result is the one obtained from the Green's function alone.
\<close>

theorem get_fock_gf_precedence:
  "get_fock ops eri (Some g) (Some rdm1) = get_fock ops eri (Some g) None"
  by (simp add: get_fock_def)

text \<open>
  C6. The seed (MP2) two-body energy is exactly one half of the Galitskii-Migdal
  two-body energy of the same Green's function and self-energy pair.
\<close>

theorem energy_mp2_half_energy_2body:
  "energy_mp2 ops g s = energy_2body ops g s * 0.5"
  by (simp add: energy_mp2_def energy_2body_def ragf2_energy_mp2_def Let_def algebra_simps)

section \<open>The moments of the self-energy\<close>

lemma sum_flat_index:
  fixes f :: "nat \<Rightarrow> nat \<Rightarrow> real"
  shows "(\<Sum>k<n * m. f (k div m) (k mod m)) = (\<Sum>j<n. \<Sum>a<m. f j a)"
proof (cases "m = 0")
  case True
  then show ?thesis by simp
next
  case False
  then have m: "0 < m" by simp
  show ?thesis
  proof (induction n)
    case 0
    show ?case by simp
  next
    case (Suc n)
    have split: "{..<Suc n * m} = {..<n * m} \<union> {n * m..<n * m + m}"
      by (auto simp: add.commute)
    have disj: "{..<n * m} \<inter> {n * m..<n * m + m} = {}"
      by auto
    have block: "(\<Sum>k = n * m..<n * m + m. f (k div m) (k mod m)) = (\<Sum>a<m. f n a)"
    proof -
      have "(\<Sum>k = n * m..<n * m + m. f (k div m) (k mod m))
            = (\<Sum>a = 0..<m. f ((a + n * m) div m) ((a + n * m) mod m))"
        using sum.shift_bounds_nat_ivl [of "\<lambda>k. f (k div m) (k mod m)" 0 "n * m" m]
        by (simp add: add.commute)
      also have "\<dots> = (\<Sum>a = 0..<m. f n a)"
        using m by (intro sum.cong) auto
      finally show ?thesis by (simp add: lessThan_atLeast0)
    qed
    have "(\<Sum>k<Suc n * m. f (k div m) (k mod m))
          = (\<Sum>k<n * m. f (k div m) (k mod m))
            + (\<Sum>k = n * m..<n * m + m. f (k div m) (k mod m))"
      unfolding split by (rule sum.union_disjoint) (use disj in auto)
    then show ?case using Suc.IH block by simp
  qed
qed

text \<open>One pass of the loop adds the three terms of the hole \<open>i\<close> to each moment.\<close>

lemma moments_step_eq:
  "moments_step gfo_a gfo_b gfv_a gfv_b qaa qab i (vv, vev) =
     ((\<lambda>p q. vv p q +
        ((\<Sum>j<naux gfo_a. \<Sum>a<naux gfv_a. qaa p i j a * qaa q i j a)
       - (\<Sum>j<naux gfo_a. \<Sum>a<naux gfv_a. qaa p i j a * qaa q j i a)
       + (\<Sum>j<naux gfo_b. \<Sum>a<naux gfv_b. qab p i j a * qab q i j a))),
      (\<lambda>p q. vev p q +
        ((\<Sum>j<naux gfo_a. \<Sum>a<naux gfv_a.
           (qaa p i j a * (energy gfo_a j - energy gfv_a a + energy gfo_a i)) * qaa q i j a)
       - (\<Sum>j<naux gfo_a. \<Sum>a<naux gfv_a.
           (qaa p i j a * (energy gfo_a j - energy gfv_a a + energy gfo_a i)) * qaa q j i a)
       + (\<Sum>j<naux gfo_b. \<Sum>a<naux gfv_b.
           (qab p i j a * (energy gfo_b j - energy gfv_b a + energy gfo_a i)) * qab q i j a))))"
  unfolding moments_step_def Let_def lib_dot_T_def scale_columns_def slice1_flat_def
    slice2_flat_def direct_sum_ravel_def
  by (simp add: sum_flat_index [symmetric] fun_eq_iff)

lemma fold_moments:
  "fold (moments_step gfo_a gfo_b gfv_a gfv_b qaa qab) [0..<n] (np_zeros, np_zeros) =
     ((\<lambda>p q. \<Sum>i<n.
        (\<Sum>j<naux gfo_a. \<Sum>a<naux gfv_a. qaa p i j a * qaa q i j a)
      - (\<Sum>j<naux gfo_a. \<Sum>a<naux gfv_a. qaa p i j a * qaa q j i a)
      + (\<Sum>j<naux gfo_b. \<Sum>a<naux gfv_b. qab p i j a * qab q i j a)),
      (\<lambda>p q. \<Sum>i<n.
        (\<Sum>j<naux gfo_a. \<Sum>a<naux gfv_a.
           (qaa p i j a * (energy gfo_a j - energy gfv_a a + energy gfo_a i)) * qaa q i j a)
      - (\<Sum>j<naux gfo_a. \<Sum>a<naux gfv_a.
           (qaa p i j a * (energy gfo_a j - energy gfv_a a + energy gfo_a i)) * qaa q j i a)
      + (\<Sum>j<naux gfo_b. \<Sum>a<naux gfv_b.
           (qab p i j a * (energy gfo_b j - energy gfv_b a + energy gfo_a i)) * qab q i j a)))"
proof (induction n)
  case 0
  show ?case by (simp add: np_zeros_def)
next
  case (Suc n)
  show ?case
    by (simp only: upt_Suc_append le0 if_True fold_append comp_apply Suc.IH fold_simps
        moments_step_eq sum.lessThan_Suc)
qed

lemma weight_form:
  fixes x y ei ej ea :: real
  shows "x * (ej - ea + ei) * y = (ei + ej - ea) * (x * y)"
  by (simp add: algebra_simps)

lemma se_moments_closed_form:
  "se_moments gfo_a gfo_b gfv_a gfv_b qaa qab =
     (moment_V_spec gfo_a gfo_b gfv_a gfv_b qaa qab,
      moment_VE_spec gfo_a gfo_b gfv_a gfv_b qaa qab)"
  unfolding se_moments_def moment_V_spec_def moment_VE_spec_def fold_moments
  by (simp only: weight_form)

text \<open>
  C4. For the spin and direction that \<open>_build_se_part_spin\<close> is run for, the loop
  leaves in \<open>vv\<close> the zeroth moment of the specification (direct term minus exchange
  term plus cross-spin direct term, summed over the same-spin holes) and in \<open>vev\<close> the
  first moment (the same terms, each product weighted by the combined pole energy).
  Arithmetic is that of the real numbers.
\<close>

theorem se_moments_spec:
  "se_moments gfo_a gfo_b gfv_a gfv_b qaa qab =
     (moment_V_spec gfo_a gfo_b gfv_a gfv_b qaa qab,
      moment_VE_spec gfo_a gfo_b gfv_a gfv_b qaa qab)"
  by (rule se_moments_closed_form)

text \<open>
  Within the memory budget, for either spin, the self-energy that
  \<open>_build_se_part_spin\<close> returns is built from these two moments of the tensors the
  materialized transform returns.
\<close>

lemma build_se_part_spin_moments:
  assumes "spin = 0 \<or> spin = 1"
    and "real (fst (ab_slice spin (nmo agf2)) * naux (fst (ab_slice spin gf_occ)) *
               (naux (fst (ab_slice spin gf_occ)) * naux (fst (ab_slice spin gf_vir)) +
                naux (snd (ab_slice spin gf_occ)) * naux (snd (ab_slice spin gf_vir))))
           * 8 / 1000000 + current_memory bc spin < max_memory agf2"
  shows "\<exists>qaa qab.
     make_qmo_eris_incore bc agf2 eri gf_occ gf_vir (Some spin) = Inr (Spin_pair qaa qab) \<and>
     build_se_part_spin bc agf2 eri gf_occ gf_vir spin =
       Inr (remove_uncoupled bc
         (let gfo_a = fst (ab_slice spin gf_occ); gfo_b = snd (ab_slice spin gf_occ);
              gfv_a = fst (ab_slice spin gf_vir); gfv_b = snd (ab_slice spin gf_vir);
              ec = cholesky_build bc (moment_V_spec gfo_a gfo_b gfv_a gfv_b qaa qab)
                     (moment_VE_spec gfo_a gfo_b gfv_a gfv_b qaa qab) gfo_a gfv_a
          in \<lparr>kind = SelfEnergy, energy = fst (fst ec), coupling = snd (fst ec),
               chempot = chempot gfo_a, naux = snd ec\<rparr>)
         (weight_tol agf2))"
  using assms
  by (auto simp: build_se_part_spin_def make_qmo_eris_incore_def Let_def se_moments_closed_form)

section \<open>The quasi-particle transform and the memory budget\<close>

lemma make_qmo_eris_outcore_raises:
  "make_qmo_eris_outcore bc agf2 eri gf_occ gf_vir = Inl (NameError ''nmo'')"
  by (simp add: make_qmo_eris_outcore_def resolve_def make_qmo_eris_outcore_params_def
      module_globals_def builtins_def)

lemma call_make_qmo_eris_outcore_raises:
  "call_make_qmo_eris_outcore bc agf2 eri gf_occ gf_vir spin =
     Inl (TypeError ''unexpected keyword argument spin'')"
  by (simp add: call_make_qmo_eris_outcore_def bind_call_def make_qmo_eris_outcore_params_def)

text \<open>
  C1. The streamed transform is meant to give the same quasi-particle tensors as the
  materialized one. In the source it gives none: the call that \<open>build_se_part\<close>
  makes passes the keyword \<open>spin\<close>, which is not a parameter of
  \<open>_make_qmo_eris_outcore\<close>, so the call raises \<open>TypeError\<close>; and the body, were it
  entered, reads the unbound name \<open>nmo\<close> on line 796 and raises \<open>NameError\<close>. The
  materialized transform returns its pair of tensors, so the two never agree.
\<close>

theorem streamed_transform_raises:
  "call_make_qmo_eris_outcore bc agf2 eri gf_occ gf_vir 0 =
     Inl (TypeError ''unexpected keyword argument spin'') \<and>
   make_qmo_eris_outcore bc agf2 eri gf_occ gf_vir = Inl (NameError ''nmo'') \<and>
   make_qmo_eris_incore bc agf2 eri gf_occ gf_vir (Some 0) =
     Inr (Spin_pair
       (reshape4 (ao2mo_incore_general bc (eri_aa eri)
          (np_eye (fst (nmo agf2)), coupling (fst gf_occ), coupling (fst gf_occ),
           coupling (fst gf_vir))) (naux (fst gf_occ)) (naux (fst gf_vir)))
       (reshape4 (ao2mo_incore_general bc (eri_ab eri)
          (np_eye (fst (nmo agf2)), coupling (fst gf_occ), coupling (snd gf_occ),
           coupling (snd gf_vir))) (naux (fst gf_occ)) (naux (snd gf_vir)))) \<and>
   make_qmo_eris_incore bc agf2 eri gf_occ gf_vir (Some 0) \<noteq>
     call_make_qmo_eris_outcore bc agf2 eri gf_occ gf_vir 0"
  by (simp add: call_make_qmo_eris_outcore_raises make_qmo_eris_outcore_raises
      make_qmo_eris_incore_def Let_def)

text \<open>
  C3. When the estimate of the materialized tensors plus the memory in use does not
  fit the budget, \<open>build_se_part\<close> is meant to switch to the streamed transform and
  finish. In the source the switch is made, and the call it makes raises \<open>TypeError\<close>:
  \<open>build_se_part\<close> fails whenever the alpha build is over budget.
\<close>

theorem build_se_part_over_budget_raises:
  assumes "kind (fst gf_occ) = GreensFunction" and "kind (snd gf_occ) = GreensFunction"
    and "kind (fst gf_vir) = GreensFunction" and "kind (snd gf_vir) = GreensFunction"
    and "max_memory agf2 \<le>
           real (fst (nmo agf2) * naux (fst gf_occ) *
                 (naux (fst gf_occ) * naux (fst gf_vir) + naux (snd gf_occ) * naux (snd gf_vir)))
             * 8 / 1000000
           + current_memory bc 0"
  shows "build_se_part bc agf2 eri gf_occ gf_vir =
           Inl (TypeError ''unexpected keyword argument spin'')"
  using assms
  by (simp add: build_se_part_def build_se_part_spin_def ab_slice_def Let_def
      call_make_qmo_eris_outcore_raises)

theorem build_se_part_over_budget_raises_witness:
  "kind (fst (example_gf, example_gf)) = GreensFunction \<and>
   kind (snd (example_gf, example_gf)) = GreensFunction \<and>
   max_memory (example_agf2\<lparr>max_memory := 50\<rparr>) \<le>
     real (fst (nmo example_agf2) * naux example_gf *
           (naux example_gf * naux example_gf + naux example_gf * naux example_gf))
       * 8 / 1000000
     + current_memory example_builder 0 \<and>
   build_se_part example_builder (example_agf2\<lparr>max_memory := 50\<rparr>) example_eri
     (example_gf, example_gf) (example_gf, example_gf) =
     Inl (TypeError ''unexpected keyword argument spin'')"
  using build_se_part_over_budget_raises
    [of "(example_gf, example_gf)" "(example_gf, example_gf)"
        "example_agf2\<lparr>max_memory := 50\<rparr>" example_builder example_eri]
  by (simp add: example_defs)

text \<open>Within the budget the materialized transform is used and the build returns.\<close>

lemma build_se_part_within_budget_example:
  "\<exists>r. build_se_part example_builder example_agf2 example_eri
         (example_gf, example_gf) (example_gf, example_gf) = Inr r"
  by (simp add: build_se_part_def build_se_part_spin_def make_qmo_eris_incore_def
      example_defs ab_slice_def Let_def)

section \<open>The chemical potentials of \<open>init_aux\<close>\<close>

lemma init_aux_chempots:
  "on_result (\<lambda>r. (chempot (fst (fst r)), chempot (snd (fst r))))
     (init_aux bc sv agf2 eri False) =
   Inr (fst (binsearch_chempot sv (Inl (fst (fock eri))) (fst (nmo agf2)) (fst (nocc agf2)) 1),
        snd (binsearch_chempot sv (Inl (snd (fock eri))) (snd (nmo agf2)) (snd (nocc agf2)) 1))"
  by (simp add: init_aux_def Let_def)

text \<open>
  C9. For a system whose two spin channels are the same, the two Green's functions of
  \<open>init_aux\<close> should carry the same chemical potential, the first component of the
  result of \<open>binsearch_chempot\<close>. In the source the beta Green's function gets the
  second component, the error in the number of electrons: on the one-orbital system
  with one electron of each spin, where the search gives the chemical potential
  \<open>-1/2\<close> and the error \<open>-1\<close> for both spins, alpha carries \<open>-1/2\<close> and beta \<open>-1\<close>.
\<close>

theorem init_aux_symmetric_chempots_differ:
  "fock example_eri = (fst (fock example_eri), fst (fock example_eri)) \<and>
   binsearch_chempot example_solver (Inl (fst (fock example_eri))) 1 1 1 = (- 1 / 2, - 1) \<and>
   on_result (\<lambda>r. (chempot (fst (fst r)), chempot (snd (fst r))))
     (init_aux example_builder example_solver
        (example_agf2\<lparr>nocc := (1, 1)\<rparr>) example_eri False) =
   Inr (- 1 / 2, - 1)"
  by (simp add: init_aux_def example_defs Let_def)

section \<open>The solver: variables the loops leave unbound\<close>

lemma get_fock_of_gf: "\<exists>fk. get_fock ops eri (Some g) None = Inr fk"
  by (simp add: get_fock_def Let_def split_def)

lemma entry_fock:
  assumes "get_fock_returns kw eri g"
  shows "\<exists>fk. (case kw of None \<Rightarrow> (\<lambda>e g. get_fock ops e (Some g) None) | Some f \<Rightarrow> f) eri g
              = Inr fk"
  using assms get_fock_of_gf [of ops eri g]
  by (auto simp: get_fock_returns_def split: option.splits sum.splits)

lemma inner_step_first:
  "\<exists>st' h'. inner_step agf2 ops sv eri a 1 (st, h) = Inr (False, st', h') \<and>
     niter2 st' \<noteq> None \<and> nerra st' \<noteq> None \<and> nerrb st' \<noteq> None \<and> nerr st' \<noteq> None \<and>
     rdm1a_prev st' \<noteq> None \<and> rdm1b_prev st' \<noteq> None \<and>
     derra st' = derra st \<and> derrb st' = derrb st \<and> derr st' = derr st"
proof -
  obtain fk where fk: "\<And>g. get_fock ops eri (Some g) None = Inr (fk g)"
    using get_fock_of_gf [of ops eri] by metis
  show ?thesis
    unfolding inner_step_def Let_def by (simp add: fk)
qed

lemma inner_step_later:
  assumes "1 < n" "rdm1a_prev st \<noteq> None" "rdm1b_prev st \<noteq> None"
  shows "\<exists>b st' h'. inner_step agf2 ops sv eri a n (st, h) = Inr (b, st', h') \<and> all_bound st'"
proof -
  obtain fk where fk: "\<And>g. get_fock ops eri (Some g) None = Inr (fk g)"
    using get_fock_of_gf [of ops eri] by metis
  from assms obtain pa pb where p: "rdm1a_prev st = Some pa" "rdm1b_prev st = Some pb"
    by auto
  show ?thesis
    unfolding inner_step_def Let_def using assms(1)
    by (auto simp: fk p load_def all_bound_def)
qed

lemma inner_loop_later:
  assumes "\<forall>n\<in>set ns. 1 < n" "all_bound st"
  shows "\<exists>st' h'. inner_loop agf2 ops sv eri a ns (st, h) = Inr (st', h') \<and> all_bound st'"
  using assms
proof (induction ns arbitrary: st h)
  case Nil
  then show ?case by simp
next
  case (Cons n ns)
  from Cons.prems have n: "1 < n" and b: "rdm1a_prev st \<noteq> None" "rdm1b_prev st \<noteq> None"
    by (auto simp: all_bound_def)
  from inner_step_later [OF n b, of agf2 ops sv eri a h]
  obtain br st1 h1 where s: "inner_step agf2 ops sv eri a n (st, h) = Inr (br, st1, h1)"
    and ab: "all_bound st1" by blast
  from Cons.prems have rest: "\<forall>n\<in>set ns. 1 < n" by simp
  from Cons.IH [OF rest ab, of h1] s ab show ?case by (cases br) auto
qed

lemma inner_loop_two_passes:
  assumes "2 \<le> m"
  shows "\<exists>st' h'. inner_loop agf2 ops sv eri a [1..m] (st, h) = Inr (st', h') \<and> all_bound st'"
proof -
  from assms have l: "[1..m] = 1 # 2 # [3..m]"
    by (simp add: upto_rec1)
  from inner_step_first [of agf2 ops sv eri a st h]
  obtain st1 h1 where s1: "inner_step agf2 ops sv eri a 1 (st, h) = Inr (False, st1, h1)"
    and b1: "rdm1a_prev st1 \<noteq> None" "rdm1b_prev st1 \<noteq> None" by blast
  from inner_step_later [OF _ b1, of 2 agf2 ops sv eri a h1]
  obtain br st2 h2 where s2: "inner_step agf2 ops sv eri a 2 (st1, h1) = Inr (br, st2, h2)"
    and b2: "all_bound st2" by auto
  have rest: "\<forall>n\<in>set [3..m]. 1 < n" by auto
  from inner_loop_later [OF rest b2, of agf2 ops sv eri a h2] s1 s2 b2 show ?thesis
    unfolding l by (cases br) auto
qed

lemma outer_step_returns:
  assumes "2 \<le> max_cycle_inner agf2"
  shows "\<exists>b st' h'. outer_step agf2 ops sv eri a (st, h) = Inr (b, st', h') \<and> all_bound st'"
proof -
  let ?s1 = "(st\<lparr>sea := minimize_chempot sv (sea st) (focka st) (fst (nocc agf2)) (chempot (sea st))
                   (conv_tol_nelec agf2) (max_cycle_inner agf2),
               seb := minimize_chempot sv (seb st) (fockb st) (snd (nocc agf2)) (chempot (seb st))
                   (conv_tol_nelec agf2) (max_cycle_inner agf2)\<rparr>)"
  from inner_loop_two_passes [OF assms, of agf2 ops sv eri a ?s1 h]
  obtain st2 h2 where l: "inner_loop agf2 ops sv eri a [1..max_cycle_inner agf2] (?s1, h) = Inr (st2, h2)"
    and b: "all_bound st2" by blast
  from b obtain i ne de where v: "niter2 st2 = Some i" "nerr st2 = Some ne" "derr st2 = Some de"
    by (auto simp: all_bound_def)
  show ?thesis
    unfolding outer_step_def Let_def using b
    by (auto simp: l v load_def all_bound_def)
qed

lemma outer_loop_returns:
  assumes "2 \<le> max_cycle_inner agf2" "ns \<noteq> [] \<or> all_bound st"
  shows "\<exists>st' h'. outer_loop agf2 ops sv eri a ns (st, h) = Inr (st', h') \<and> all_bound st'"
  using assms(2)
proof (induction ns arbitrary: st h)
  case Nil
  then show ?case by simp
next
  case (Cons n ns)
  from outer_step_returns [OF assms(1), of ops sv eri a st h]
  obtain br st1 h1 where s: "outer_step agf2 ops sv eri a (st, h) = Inr (br, st1, h1)"
    and ab: "all_bound st1" by blast
  from Cons.IH [of st1 h1] s ab show ?case by (cases br) auto
qed

text \<open>
  With at least one outer pass and at least two inner passes per outer pass every
  variable is bound where it is read: \<open>fock_loop\<close> returns.
\<close>

lemma fock_loop_returns:
  assumes "kind (fst g) = GreensFunction" "kind (snd g) = GreensFunction"
    and "kind (fst s) = SelfEnergy" "kind (snd s) = SelfEnergy"
    and "1 \<le> max_cycle_outer agf2" and "2 \<le> max_cycle_inner agf2"
    and entry: "get_fock_returns kw eri g"
  shows "\<exists>r. fock_loop h agf2 ops sv eri g s kw = Inr r"
proof -
  from entry_fock [OF entry] obtain fk where
    fk: "(case kw of None \<Rightarrow> (\<lambda>e g. get_fock ops e (Some g) None) | Some f \<Rightarrow> f) eri g = Inr fk"
    by blast
  from assms(5) have ne: "[1..max_cycle_outer agf2] \<noteq> []" by simp
  let ?st0 = "\<lparr>focka = fst fk, fockb = snd fk, sea = fst s, seb = snd s,
               gf = g, converged = False, niter2 = None,
               nerra = None, nerrb = None, nerr = None,
               derra = None, derrb = None, derr = None,
               rdm1a_prev = None, rdm1b_prev = None\<rparr>"
  let ?h2 = "h @ [(DIIS_new sv)\<lparr>space := diis_space agf2, min_space := diis_min_space agf2\<rparr>]"
  from outer_loop_returns [OF assms(6), of "[1..max_cycle_outer agf2]" ?st0 ops sv eri "length h" ?h2] ne
  obtain st' h' where l: "outer_loop agf2 ops sv eri (length h) [1..max_cycle_outer agf2] (?st0, ?h2) = Inr (st', h')"
    and b: "all_bound st'" by blast
  from b obtain a1 a2 a3 a4 where v: "nerra st' = Some a1" "derra st' = Some a2"
    "nerrb st' = Some a3" "derrb st' = Some a4"
    by (auto simp: all_bound_def)
  show ?thesis
    unfolding fock_loop_def fock_loop_locals_def Let_def
    by (simp add: assms(1-4) fk l v load_def)
qed

text \<open>With no inner pass at all, the first outer pass already fails to read \<open>niter2\<close>.\<close>

lemma fock_loop_inner_never_entered_raises:
  assumes "kind (fst g) = GreensFunction" "kind (snd g) = GreensFunction"
    and "kind (fst s) = SelfEnergy" "kind (snd s) = SelfEnergy"
    and "max_cycle_inner agf2 \<le> 0" and "1 \<le> max_cycle_outer agf2"
    and entry: "get_fock_returns kw eri g"
  shows "fock_loop h agf2 ops sv eri g s kw = Inl (UnboundLocalError ''niter2'')"
proof -
  from entry_fock [OF entry] obtain fk where
    fk: "(case kw of None \<Rightarrow> (\<lambda>e g. get_fock ops e (Some g) None) | Some f \<Rightarrow> f) eri g = Inr fk"
    by blast
  from assms(6) have l: "[1..max_cycle_outer agf2] = 1 # [2..max_cycle_outer agf2]"
    by (simp add: upto_rec1)
  from assms(5) have e: "[1..max_cycle_inner agf2] = []" by simp
  show ?thesis
    unfolding fock_loop_def fock_loop_locals_def Let_def
    by (simp add: assms(1-4) fk l e outer_step_def load_def)
qed

text \<open>
  C8. The density-matrix change \<open>derr\<close> should be defined when the outer loop first
  uses it. It is not when \<open>max_cycle_inner = 1\<close>: the only inner pass has
  \<open>niter2 = 1\<close>, which skips the assignment, and the first outer pass then reads
  \<open>derr\<close> (line 264) and raises \<open>UnboundLocalError\<close>.
\<close>

theorem fock_loop_single_inner_pass_raises:
  assumes "kind (fst g) = GreensFunction" "kind (snd g) = GreensFunction"
    and "kind (fst s) = SelfEnergy" "kind (snd s) = SelfEnergy"
    and "max_cycle_inner agf2 = 1" and "1 \<le> max_cycle_outer agf2"
    and entry: "get_fock_returns kw eri g"
  shows "fock_loop h agf2 ops sv eri g s kw = Inl (UnboundLocalError ''derr'')"
proof -
  from entry_fock [OF entry] obtain fk where
    fk: "(case kw of None \<Rightarrow> (\<lambda>e g. get_fock ops e (Some g) None) | Some f \<Rightarrow> f) eri g = Inr fk"
    by blast
  from assms(6) have l: "[1..max_cycle_outer agf2] = 1 # [2..max_cycle_outer agf2]"
    by (simp add: upto_rec1)
  have one: "[1..1::int] = [1]" by (simp add: upto_rec1)
  have step: "outer_step agf2 ops sv eri a (st, h') = Inl (UnboundLocalError ''derr'')"
    if "derr st = None" for a st h'
  proof -
    let ?s1 = "(st\<lparr>sea := minimize_chempot sv (sea st) (focka st) (fst (nocc agf2)) (chempot (sea st))
                   (conv_tol_nelec agf2) 1,
               seb := minimize_chempot sv (seb st) (fockb st) (snd (nocc agf2)) (chempot (seb st))
                   (conv_tol_nelec agf2) 1\<rparr>)"
    from inner_step_first [of agf2 ops sv eri a ?s1 h']
    obtain st1 h1 where s1: "inner_step agf2 ops sv eri a 1 (?s1, h') = Inr (False, st1, h1)"
      and b: "niter2 st1 \<noteq> None" "nerr st1 \<noteq> None" "derr st1 = derr ?s1" by blast
    from b that obtain i ne where v: "niter2 st1 = Some i" "nerr st1 = Some ne" "derr st1 = None"
      by auto
    show ?thesis
      unfolding outer_step_def Let_def
      by (simp add: assms(5) one s1 v load_def)
  qed
  show ?thesis
    unfolding fock_loop_def fock_loop_locals_def Let_def
    by (simp add: assms(1-4) fk l step)
qed

theorem fock_loop_single_inner_pass_raises_witness:
  "kind (fst (example_gf, example_gf)) = GreensFunction \<and>
   kind (snd (example_gf, example_gf)) = GreensFunction \<and>
   kind (fst (example_se, example_se)) = SelfEnergy \<and>
   kind (snd (example_se, example_se)) = SelfEnergy \<and>
   max_cycle_inner (example_agf2\<lparr>max_cycle_inner := 1\<rparr>) = 1 \<and>
   1 \<le> max_cycle_outer (example_agf2\<lparr>max_cycle_inner := 1\<rparr>) \<and>
   get_fock_returns None example_eri (example_gf, example_gf) \<and>
   fock_loop [] (example_agf2\<lparr>max_cycle_inner := 1\<rparr>) example_ops example_solver example_eri
     (example_gf, example_gf) (example_se, example_se) None =
     Inl (UnboundLocalError ''derr'')"
  using fock_loop_single_inner_pass_raises
    [of "(example_gf, example_gf)" "(example_se, example_se)"
        "example_agf2\<lparr>max_cycle_inner := 1\<rparr>" None example_eri "[]" example_ops example_solver]
  by (simp add: example_defs get_fock_returns_def)

text \<open>
  C5. When the outer passes are used up without convergence, \<open>fock_loop\<close> should
  return with \<open>converged = False\<close>. With \<open>max_cycle_outer\<close> at most 0 no pass is made,
  none converges, and the report after the loop (line 275) reads \<open>nerra\<close>, which no
  pass has bound: the call raises \<open>UnboundLocalError\<close> and returns nothing.
\<close>

theorem fock_loop_no_outer_pass_raises:
  assumes "kind (fst g) = GreensFunction" "kind (snd g) = GreensFunction"
    and "kind (fst s) = SelfEnergy" "kind (snd s) = SelfEnergy"
    and "max_cycle_outer agf2 \<le> 0"
    and entry: "get_fock_returns kw eri g"
  shows "fock_loop h agf2 ops sv eri g s kw = Inl (UnboundLocalError ''nerra'')"
proof -
  from entry_fock [OF entry] obtain fk where
    fk: "(case kw of None \<Rightarrow> (\<lambda>e g. get_fock ops e (Some g) None) | Some f \<Rightarrow> f) eri g = Inr fk"
    by blast
  from assms(5) have l: "[1..max_cycle_outer agf2] = []" by simp
  show ?thesis
    unfolding fock_loop_def fock_loop_locals_def Let_def
    by (simp add: assms(1-4) fk l load_def)
qed

theorem fock_loop_no_outer_pass_raises_witness:
  "kind (fst (example_gf, example_gf)) = GreensFunction \<and>
   kind (snd (example_gf, example_gf)) = GreensFunction \<and>
   kind (fst (example_se, example_se)) = SelfEnergy \<and>
   kind (snd (example_se, example_se)) = SelfEnergy \<and>
   max_cycle_outer (example_agf2\<lparr>max_cycle_outer := 0\<rparr>) \<le> 0 \<and>
   get_fock_returns None example_eri (example_gf, example_gf) \<and>
   fock_loop [] (example_agf2\<lparr>max_cycle_outer := 0\<rparr>) example_ops example_solver example_eri
     (example_gf, example_gf) (example_se, example_se) None =
     Inl (UnboundLocalError ''nerra'')"
  using fock_loop_no_outer_pass_raises
    [of "(example_gf, example_gf)" "(example_se, example_se)"
        "example_agf2\<lparr>max_cycle_outer := 0\<rparr>" None example_eri "[]" example_ops example_solver]
  by (simp add: example_defs get_fock_returns_def)

section \<open>The solver: what \<open>converged\<close> means\<close>

lemma inner_step_coherent:
  assumes "inner_step agf2 ops sv eri a n (st, h) = Inr (b, st', h')"
  shows "errors_coherent st' \<and> converged st' = converged st"
  using assms unfolding inner_step_def Let_def
  by (auto simp: errors_coherent_def split: sum.splits if_splits)

lemma inner_loop_coherent:
  assumes "inner_loop agf2 ops sv eri a ns (st, h) = Inr (st', h')" "errors_coherent st"
  shows "errors_coherent st' \<and> converged st' = converged st"
  using assms
proof (induction ns arbitrary: st h)
  case Nil
  then show ?case by auto
next
  case (Cons n ns)
  show ?case
  proof (cases "inner_step agf2 ops sv eri a n (st, h)")
    case (Inl e)
    with Cons.prems show ?thesis by simp
  next
    case (Inr r)
    obtain b st1 h1 where r: "r = (b, st1, h1)" by (cases r) auto
    from inner_step_coherent Inr r have c: "errors_coherent st1" "converged st1 = converged st"
      by blast+
    show ?thesis
    proof (cases b)
      case True
      with Cons.prems Inr r c show ?thesis by auto
    next
      case False
      with Cons.prems Inr r have "inner_loop agf2 ops sv eri a ns (st1, h1) = Inr (st', h')"
        by simp
      from Cons.IH [OF this c(1)] c(2) show ?thesis by simp
    qed
  qed
qed

lemma outer_step_verdict:
  assumes "outer_step agf2 ops sv eri a (st, h) = Inr (b, st', h')"
    and "errors_coherent st" and "\<not> converged st"
  shows "verdict agf2 st' \<and> b = converged st'"
proof -
  let ?s1 = "(st\<lparr>sea := minimize_chempot sv (sea st) (focka st) (fst (nocc agf2)) (chempot (sea st))
                   (conv_tol_nelec agf2) (max_cycle_inner agf2),
               seb := minimize_chempot sv (seb st) (fockb st) (snd (nocc agf2)) (chempot (seb st))
                   (conv_tol_nelec agf2) (max_cycle_inner agf2)\<rparr>)"
  from assms(1) obtain st2 h2 where
    l: "inner_loop agf2 ops sv eri a [1..max_cycle_inner agf2] (?s1, h) = Inr (st2, h2)"
    unfolding outer_step_def Let_def by (auto split: sum.splits)
  have "errors_coherent ?s1"
    using assms(2) by (auto simp: errors_coherent_def split: option.splits)
  from inner_loop_coherent [OF l this] assms(3)
  have c: "errors_coherent st2" "\<not> converged st2" by simp_all
  from assms(1) l c show ?thesis
    unfolding outer_step_def Let_def
    by (auto simp: load_def verdict_def errors_coherent_def
        split: sum.splits option.splits if_splits)
qed

lemma verdict_coherent: "verdict agf2 st \<Longrightarrow> errors_coherent st"
  by (auto simp: verdict_def errors_coherent_def split: option.splits)

lemma outer_loop_verdict:
  assumes "outer_loop agf2 ops sv eri a ns (st, h) = Inr (st', h')"
    and "errors_coherent st" and "\<not> converged st" and "ns \<noteq> [] \<or> verdict agf2 st"
  shows "verdict agf2 st'"
  using assms
proof (induction ns arbitrary: st h)
  case Nil
  then show ?case by auto
next
  case (Cons n ns)
  show ?case
  proof (cases "outer_step agf2 ops sv eri a (st, h)")
    case (Inl e)
    with Cons.prems show ?thesis by simp
  next
    case (Inr r)
    obtain b st1 h1 where r: "r = (b, st1, h1)" by (cases r) auto
    from outer_step_verdict [OF _ Cons.prems(2,3)] Inr r
    have v: "verdict agf2 st1" "b = converged st1" by blast+
    show ?thesis
    proof (cases b)
      case True
      with Cons.prems Inr r v show ?thesis by auto
    next
      case False
      with Cons.prems Inr r have "outer_loop agf2 ops sv eri a ns (st1, h1) = Inr (st', h')"
        by simp
      from Cons.IH [OF this verdict_coherent [OF v(1)]] v False show ?thesis by simp
    qed
  qed
qed

text \<open>
  After at least one outer pass, \<open>converged\<close> is \<open>True\<close> exactly when the last pass
  left \<open>derr\<close> below \<open>conv_tol_rdm1\<close> and the absolute value of
  \<open>max(nerra, nerrb)\<close> below \<open>conv_tol_nelec\<close>.
\<close>

lemma fock_loop_locals_verdict:
  assumes "fock_loop_locals h agf2 ops sv eri g s kw = Inr (st, h')"
    and "1 \<le> max_cycle_outer agf2"
  shows "verdict agf2 st"
proof -
  from assms(2) have ne: "[1..max_cycle_outer agf2] \<noteq> []" by simp
  from assms(1) obtain st0 h0 where
    l: "outer_loop agf2 ops sv eri (length h) [1..max_cycle_outer agf2] (st0, h0) = Inr (st, h')"
    and i: "nerr st0 = None" "\<not> converged st0"
    unfolding fock_loop_locals_def Let_def
    by (auto split: sum.splits if_splits option.splits)
  from i have "errors_coherent st0" by (simp add: errors_coherent_def)
  from outer_loop_verdict [OF l this i(2)] ne show ?thesis by simp
qed

text \<open>
  So a converged call bounds both errors from above, and the larger one from below;
  the smaller one is not bounded from below.
\<close>

lemma fock_loop_converged_bound:
  assumes "fock_loop_locals h agf2 ops sv eri g s kw = Inr (st, h')" and "converged st"
  shows "\<exists>a b. nerra st = Some a \<and> nerrb st = Some b \<and>
           a < conv_tol_nelec agf2 \<and> b < conv_tol_nelec agf2 \<and>
           - conv_tol_nelec agf2 < max a b"
proof -
  have "1 \<le> max_cycle_outer agf2"
  proof (rule ccontr)
    assume "\<not> 1 \<le> max_cycle_outer agf2"
    then have "[1..max_cycle_outer agf2] = []" by simp
    with assms show False
      unfolding fock_loop_locals_def Let_def
      by (auto split: sum.splits if_splits option.splits simp: load_def)
  qed
  from fock_loop_locals_verdict [OF assms(1) this] assms(2) show ?thesis
    by (auto simp: verdict_def split: option.splits)
qed

text \<open>
  C2. A call that returns \<open>converged = True\<close> should leave the electron-number error
  of each spin within \<open>conv_tol_nelec\<close>. The source tests \<open>abs(max(nerra, nerrb))\<close>,
  which a negative error of one spin passes whatever its size: on the one-orbital
  system the call converges in its first outer pass with \<open>nerra = -1\<close> and
  \<open>nerrb = 0\<close>, for the tolerance \<open>1e-6\<close>.
\<close>

theorem fock_loop_converged_despite_alpha_error:
  "on_result (\<lambda>s. (converged (fst s), nerra (fst s), nerrb (fst s), conv_tol_nelec example_agf2))
     (fock_loop_locals [] example_agf2 example_ops example_solver example_eri
        (example_gf, example_gf) (example_se, example_se) None) =
   Inr (True, Some (- 1), Some 0, 1 / 10 ^ 6)"
  by (simp add: fock_loop_locals_def example_defs outer_step_def inner_step_def get_fock_def
      make_rdm1_def load_def Let_def np_zeros_def np_eye_def upto.simps)

section \<open>The solver: the DIIS object is private to the call\<close>

lemma inner_step_single:
  "inner_step agf2 ops sv eri 0 n (st, [d]) = Inr (b, st', h') \<Longrightarrow> \<exists>d'. h' = [d']"
  unfolding inner_step_def Let_def
  by (auto split: sum.splits if_splits)

lemma inner_step_store:
  assumes "a < length h"
  shows "inner_step agf2 ops sv eri a n (st, h) =
         on_result (\<lambda>r. (fst r, restore h a (snd r)))
           (inner_step agf2 ops sv eri 0 n (st, [h ! a]))"
  using assms unfolding inner_step_def Let_def restore_def
  by (auto split: sum.splits if_splits)

lemma inner_loop_single:
  "inner_loop agf2 ops sv eri 0 ns (st, [d]) = Inr (st', h') \<Longrightarrow> \<exists>d'. h' = [d']"
proof (induction ns arbitrary: st d)
  case Nil
  then show ?case by auto
next
  case (Cons n ns)
  show ?case
  proof (cases "inner_step agf2 ops sv eri 0 n (st, [d])")
    case (Inl e)
    with Cons.prems show ?thesis by simp
  next
    case (Inr r)
    obtain b st1 h1 where r: "r = (b, st1, h1)" by (cases r) auto
    from Inr r inner_step_single obtain d1 where h1: "h1 = [d1]" by blast
    show ?thesis
    proof (cases b)
      case True
      with Cons.prems Inr r h1 show ?thesis by auto
    next
      case False
      with Cons.prems Inr r h1 have "inner_loop agf2 ops sv eri 0 ns (st1, [d1]) = Inr (st', h')"
        by simp
      then show ?thesis by (rule Cons.IH)
    qed
  qed
qed

lemma inner_loop_store:
  "a < length h \<Longrightarrow>
   inner_loop agf2 ops sv eri a ns (st, h) =
     on_result (restore h a) (inner_loop agf2 ops sv eri 0 ns (st, [h ! a]))"
proof (induction ns arbitrary: st h)
  case Nil
  then show ?case by (simp add: restore_def)
next
  case (Cons n ns)
  note step = inner_step_store [OF Cons.prems, of agf2 ops sv eri n st]
  show ?case
  proof (cases "inner_step agf2 ops sv eri 0 n (st, [h ! a])")
    case (Inl e)
    with step show ?thesis by simp
  next
    case (Inr r)
    obtain b st1 h1 where r: "r = (b, st1, h1)" by (cases r) auto
    from Inr r inner_step_single obtain d1 where h1: "h1 = [d1]" by blast
    have s: "inner_step agf2 ops sv eri a n (st, h) = Inr (b, st1, h[a := d1])"
      using step Inr r h1 by (simp add: restore_def)
    show ?thesis
    proof (cases b)
      case True
      with s Inr r h1 show ?thesis by (simp add: restore_def)
    next
      case False
      have len: "a < length (h[a := d1])" using Cons.prems by simp
      have eq: "restore (h[a := d1]) a = restore h a"
        by (simp add: restore_def fun_eq_iff)
      have "inner_loop agf2 ops sv eri a (n # ns) (st, h) =
            inner_loop agf2 ops sv eri a ns (st1, h[a := d1])"
        using s False by simp
      also have "\<dots> = on_result (restore (h[a := d1]) a)
                         (inner_loop agf2 ops sv eri 0 ns (st1, [d1]))"
        using Cons.IH [OF len, of st1] Cons.prems by simp
      also have "\<dots> = on_result (restore h a) (inner_loop agf2 ops sv eri 0 ns (st1, [d1]))"
        by (simp only: eq)
      also have "\<dots> = on_result (restore h a)
                         (inner_loop agf2 ops sv eri 0 (n # ns) (st, [h ! a]))"
        using Inr r h1 False by simp
      finally show ?thesis .
    qed
  qed
qed

lemma outer_step_single:
  "outer_step agf2 ops sv eri 0 (st, [d]) = Inr (b, st', h') \<Longrightarrow> \<exists>d'. h' = [d']"
  unfolding outer_step_def Let_def
  by (auto split: sum.splits if_splits dest: inner_loop_single)

lemma outer_loop_single:
  "outer_loop agf2 ops sv eri 0 ns (st, [d]) = Inr (st', h') \<Longrightarrow> \<exists>d'. h' = [d']"
proof (induction ns arbitrary: st d)
  case Nil
  then show ?case by auto
next
  case (Cons n ns)
  show ?case
  proof (cases "outer_step agf2 ops sv eri 0 (st, [d])")
    case (Inl e)
    with Cons.prems show ?thesis by simp
  next
    case (Inr r)
    obtain b st1 h1 where r: "r = (b, st1, h1)" by (cases r) auto
    from Inr r outer_step_single obtain d1 where h1: "h1 = [d1]" by blast
    show ?thesis
    proof (cases b)
      case True
      with Cons.prems Inr r h1 show ?thesis by auto
    next
      case False
      with Cons.prems Inr r h1 have "outer_loop agf2 ops sv eri 0 ns (st1, [d1]) = Inr (st', h')"
        by simp
      then show ?thesis by (rule Cons.IH)
    qed
  qed
qed

lemma outer_step_store:
  assumes "a < length h"
  shows "outer_step agf2 ops sv eri a (st, h) =
         on_result (\<lambda>r. (fst r, restore h a (snd r)))
           (outer_step agf2 ops sv eri 0 (st, [h ! a]))"
  unfolding outer_step_def Let_def
  by (simp add: inner_loop_store [OF assms] restore_def split: sum.splits)

lemma outer_loop_store:
  "a < length h \<Longrightarrow>
   outer_loop agf2 ops sv eri a ns (st, h) =
     on_result (restore h a) (outer_loop agf2 ops sv eri 0 ns (st, [h ! a]))"
proof (induction ns arbitrary: st h)
  case Nil
  then show ?case by (simp add: restore_def)
next
  case (Cons n ns)
  note step = outer_step_store [OF Cons.prems, of agf2 ops sv eri st]
  show ?case
  proof (cases "outer_step agf2 ops sv eri 0 (st, [h ! a])")
    case (Inl e)
    with step show ?thesis by simp
  next
    case (Inr r)
    obtain b st1 h1 where r: "r = (b, st1, h1)" by (cases r) auto
    from Inr r outer_step_single obtain d1 where h1: "h1 = [d1]" by blast
    have s: "outer_step agf2 ops sv eri a (st, h) = Inr (b, st1, h[a := d1])"
      using step Inr r h1 by (simp add: restore_def)
    show ?thesis
    proof (cases b)
      case True
      with s Inr r h1 show ?thesis by (simp add: restore_def)
    next
      case False
      have len: "a < length (h[a := d1])" using Cons.prems by simp
      have eq: "restore (h[a := d1]) a = restore h a"
        by (simp add: restore_def fun_eq_iff)
      have "outer_loop agf2 ops sv eri a (n # ns) (st, h) =
            outer_loop agf2 ops sv eri a ns (st1, h[a := d1])"
        using s False by simp
      also have "\<dots> = on_result (restore (h[a := d1]) a)
                         (outer_loop agf2 ops sv eri 0 ns (st1, [d1]))"
        using Cons.IH [OF len, of st1] Cons.prems by simp
      also have "\<dots> = on_result (restore h a) (outer_loop agf2 ops sv eri 0 ns (st1, [d1]))"
        by (simp only: eq)
      also have "\<dots> = on_result (restore h a)
                         (outer_loop agf2 ops sv eri 0 (n # ns) (st, [h ! a]))"
        using Inr r h1 False by simp
      finally show ?thesis .
    qed
  qed
qed

lemma fock_loop_locals_store:
  "fock_loop_locals h agf2 ops sv eri g s kw =
     on_result (restore (h @ [DIIS_new sv]) (length h)) (fock_loop_locals [] agf2 ops sv eri g s kw)"
proof -
  let ?d = "(DIIS_new sv)\<lparr>space := diis_space agf2, min_space := diis_min_space agf2\<rparr>"
  have l: "outer_loop agf2 ops sv eri (length h) ns (st, h @ [?d]) =
        on_result (restore (h @ [DIIS_new sv]) (length h)) (outer_loop agf2 ops sv eri 0 ns (st, [?d]))" for ns st
  proof -
    have eq: "restore (h @ [?d]) (length h) = restore (h @ [DIIS_new sv]) (length h)"
      by (simp add: restore_def fun_eq_iff)
    have "outer_loop agf2 ops sv eri (length h) ns (st, h @ [?d]) =
          on_result (restore (h @ [?d]) (length h)) (outer_loop agf2 ops sv eri 0 ns (st, [?d]))"
      using outer_loop_store [of "length h" "h @ [?d]" agf2 ops sv eri ns st] by simp
    then show ?thesis by (simp only: eq)
  qed
  have single: "outer_loop agf2 ops sv eri 0 ns (st, [?d]) = Inr (st', h') \<Longrightarrow> \<exists>d'. h' = [d']" for ns st st' h'
    using outer_loop_single by blast
  show ?thesis
    unfolding fock_loop_locals_def Let_def
    by (auto simp: l restore_def split: sum.splits option.splits dest!: single)
qed

text \<open>
  C7. \<open>fock_loop\<close> keeps no state between calls: whatever DIIS objects earlier runs
  left in the store, two calls with the same arguments return the same result (or
  raise the same exception). The call allocates its DIIS object on entry and reads
  and writes no other cell.
\<close>

theorem fock_loop_store_independent:
  "fock_loop h1 agf2 ops sv eri g s kw = fock_loop h2 agf2 ops sv eri g s kw"
proof -
  have "fock_loop h agf2 ops sv eri g s kw = fock_loop [] agf2 ops sv eri g s kw" for h
    unfolding fock_loop_def
    by (subst fock_loop_locals_store [of h])
       (cases "fock_loop_locals [] agf2 ops sv eri g s kw"; simp add: restore_def)
  from this [of h1] this [of h2] show ?thesis by simp
qed

text \<open>The cells that were in the store before the call are as they were after it.\<close>

lemma fock_loop_locals_keeps_store:
  "fock_loop_locals h agf2 ops sv eri g s kw = Inr (st, h') \<Longrightarrow>
     length h' = Suc (length h) \<and> take (length h) h' = h"
  by (subst (asm) fock_loop_locals_store)
     (cases "fock_loop_locals [] agf2 ops sv eri g s kw"; auto simp: restore_def)


end
